theory Spec2Isabelle
  imports Main "HOL-Library.Word"
begin

unbundle bit_operations_syntax

section \<open>Python values used by smbserver.py\<close>

text \<open>
  A Python \<open>bytes\<close> object is a list of 8-bit words, a Python \<open>str\<close> a list of code
  points, a Python \<open>int\<close> an \<open>int\<close>. Every exception the source can raise is a value of
  \<open>error\<close>; a function that can raise returns \<open>error + 'a\<close>, \<open>Inl\<close> the exception.
\<close>

type_synonym byte = "8 word"
type_synonym bytes = "byte list"
type_synonym pystr = "nat list"

datatype error =
    Exception string
  | ProtocolError string
  | StructError
  | ValueError
  | IndexError
  | AttributeError
  | AssertionError
  | UnicodeDecodeError
  | UnicodeEncodeError
  | NameError
  | LibraryError string

definition py_str :: "string \<Rightarrow> pystr" where
  "py_str s = map of_char s"

definition py_bytes :: "string \<Rightarrow> bytes" where
  "py_bytes s = map of_char s"

subsection \<open>Slicing, indexing and searching\<close>

definition slice_index :: "nat \<Rightarrow> int \<Rightarrow> nat" where
  \<comment> \<open>how a slice bound is read against a sequence of length \<open>n\<close>\<close>
  "slice_index n i = (if i < 0 then nat (max 0 (i + int n)) else min (nat i) n)"

definition py_slice :: "'a list \<Rightarrow> int \<Rightarrow> int \<Rightarrow> 'a list" where
  \<comment> \<open>\<open>xs[a:b]\<close>\<close>
  "py_slice xs a b = drop (slice_index (length xs) a) (take (slice_index (length xs) b) xs)"

definition py_slice_to :: "'a list \<Rightarrow> int \<Rightarrow> 'a list" where
  \<comment> \<open>\<open>xs[:b]\<close>\<close>
  "py_slice_to xs b = take (slice_index (length xs) b) xs"

definition py_slice_from :: "'a list \<Rightarrow> int \<Rightarrow> 'a list" where
  \<comment> \<open>\<open>xs[a:]\<close>\<close>
  "py_slice_from xs a = drop (slice_index (length xs) a) xs"

definition py_getitem :: "'a list \<Rightarrow> int \<Rightarrow> error + 'a" where
  \<comment> \<open>\<open>xs[i]\<close>: \<open>xs[-1]\<close> is the last element; IndexError outside \<open>-len(xs) .. len(xs) - 1\<close>\<close>
  "py_getitem xs i =
     (if i < - int (length xs) \<or> int (length xs) \<le> i then Inl IndexError
      else if i < 0 then Inr (xs ! nat (i + int (length xs)))
      else Inr (xs ! nat i))"

fun find_sub :: "'a list \<Rightarrow> 'a list \<Rightarrow> nat \<Rightarrow> nat option" where
  "find_sub sub [] k = (if sub = [] then Some k else None)"
| "find_sub sub (x # xs) k =
     (if take (length sub) (x # xs) = sub then Some k else find_sub sub xs (Suc k))"

definition search_start :: "nat \<Rightarrow> int \<Rightarrow> nat" where
  \<comment> \<open>where a search of a sequence of length \<open>n\<close> begins when it is given the start \<open>i\<close>\<close>
  "search_start n i = (if i < 0 then nat (max 0 (i + int n)) else nat i)"

definition bytes_index :: "'a list \<Rightarrow> 'a list \<Rightarrow> int \<Rightarrow> error + nat" where
  \<comment> \<open>\<open>xs.index(sub, start)\<close>: the lowest position at or after \<open>start\<close>, ValueError if none\<close>
  "bytes_index xs sub start =
     (let st = search_start (length xs) start
      in if length xs < st then Inl ValueError
         else case find_sub sub (drop st xs) st of
                None \<Rightarrow> Inl ValueError
              | Some p \<Rightarrow> Inr p)"

fun list_index :: "'a list \<Rightarrow> 'a \<Rightarrow> error + int" where
  \<comment> \<open>\<open>xs.index(v)\<close> of a list\<close>
  "list_index [] v = Inl ValueError"
| "list_index (x # xs) v =
     (if x = v then Inr 0
      else case list_index xs v of Inl e \<Rightarrow> Inl e | Inr i \<Rightarrow> Inr (i + 1))"

fun split_bytes :: "'a \<Rightarrow> 'a list \<Rightarrow> 'a list list" where
  \<comment> \<open>\<open>xs.split(sep)\<close> for a separator of one byte\<close>
  "split_bytes sep [] = [[]]"
| "split_bytes sep (x # xs) =
     (if x = sep then [] # split_bytes sep xs
      else case split_bytes sep xs of
             [] \<Rightarrow> [[x]]
           | y # ys \<Rightarrow> (x # y) # ys)"

definition lstrip :: "'a \<Rightarrow> 'a list \<Rightarrow> 'a list" where
  "lstrip c xs = dropWhile (\<lambda>x. x = c) xs"

definition rstrip :: "'a \<Rightarrow> 'a list \<Rightarrow> 'a list" where
  "rstrip c xs = rev (dropWhile (\<lambda>x. x = c) (rev xs))"

subsection \<open>The struct module\<close>

text \<open>
  A format is a byte order (\<open><\<close> or \<open>>\<close>, both with standard sizes and no alignment)
  and a list of field codes: \<open>x\<close> (a pad byte), \<open>B H I Q\<close> (unsigned, 1, 2, 4 and 8 bytes)
  and \<open>b h i q\<close> (signed). \<open>struct.unpack\<close> raises unless the buffer has exactly the
  format's size; \<open>struct.pack\<close> raises unless there is one value per field and each value
  fits its field.
\<close>

datatype byteorder = LittleEndian | BigEndian

datatype fcode = Pad | U8 | U16 | U32 | U64 | S8 | S16 | S32 | S64

type_synonym format = "byteorder \<times> fcode list"

fun code_size :: "fcode \<Rightarrow> nat" where
  "code_size Pad = 1"
| "code_size U8 = 1"
| "code_size U16 = 2"
| "code_size U32 = 4"
| "code_size U64 = 8"
| "code_size S8 = 1"
| "code_size S16 = 2"
| "code_size S32 = 4"
| "code_size S64 = 8"

fun code_signed :: "fcode \<Rightarrow> bool" where
  "code_signed S8 = True"
| "code_signed S16 = True"
| "code_signed S32 = True"
| "code_signed S64 = True"
| "code_signed c = False"

definition calcsize :: "format \<Rightarrow> nat" where
  "calcsize fmt = sum_list (map code_size (snd fmt))"

fun le_int :: "bytes \<Rightarrow> int" where
  "le_int [] = 0"
| "le_int (b # bs) = uint b + 256 * le_int bs"

fun le_bytes :: "nat \<Rightarrow> int \<Rightarrow> bytes" where
  "le_bytes 0 v = []"
| "le_bytes (Suc n) v = word_of_int v # le_bytes n (v div 256)"

definition field_value :: "byteorder \<Rightarrow> fcode \<Rightarrow> bytes \<Rightarrow> int" where
  "field_value order c bs =
     (let u = le_int (if order = LittleEndian then bs else rev bs)
      in if code_signed c \<and> 2 ^ (8 * code_size c - 1) \<le> u then u - 2 ^ (8 * code_size c) else u)"

definition field_bytes :: "byteorder \<Rightarrow> fcode \<Rightarrow> int \<Rightarrow> bytes" where
  "field_bytes order c v =
     (let bs = le_bytes (code_size c) v in if order = LittleEndian then bs else rev bs)"

definition field_fits :: "fcode \<Rightarrow> int \<Rightarrow> bool" where
  "field_fits c v =
     (if code_signed c
      then - (2 ^ (8 * code_size c - 1)) \<le> v \<and> v < 2 ^ (8 * code_size c - 1)
      else 0 \<le> v \<and> v < 2 ^ (8 * code_size c))"

fun unpack_fields :: "byteorder \<Rightarrow> fcode list \<Rightarrow> bytes \<Rightarrow> int list" where
  "unpack_fields order [] bs = []"
| "unpack_fields order (Pad # cs) bs = unpack_fields order cs (drop 1 bs)"
| "unpack_fields order (c # cs) bs =
     field_value order c (take (code_size c) bs) # unpack_fields order cs (drop (code_size c) bs)"

definition struct_unpack :: "format \<Rightarrow> bytes \<Rightarrow> error + int list" where
  "struct_unpack fmt bs =
     (if length bs = calcsize fmt then Inr (unpack_fields (fst fmt) (snd fmt) bs)
      else Inl StructError)"

fun pack_fields :: "byteorder \<Rightarrow> fcode list \<Rightarrow> int list \<Rightarrow> error + bytes" where
  "pack_fields order [] [] = Inr []"
| "pack_fields order [] (v # vs) = Inl StructError"
| "pack_fields order (Pad # cs) vs =
     (case pack_fields order cs vs of Inl e \<Rightarrow> Inl e | Inr bs \<Rightarrow> Inr (0 # bs))"
| "pack_fields order (c # cs) [] = Inl StructError"
| "pack_fields order (c # cs) (v # vs) =
     (if field_fits c v
      then case pack_fields order cs vs of
             Inl e \<Rightarrow> Inl e
           | Inr bs \<Rightarrow> Inr (field_bytes order c v @ bs)
      else Inl StructError)"

definition struct_pack :: "format \<Rightarrow> int list \<Rightarrow> error + bytes" where
  "struct_pack fmt vs = pack_fields (fst fmt) (snd fmt) vs"

subsection \<open>Codecs\<close>

definition decode_ascii :: "bytes \<Rightarrow> error + pystr" where
  "decode_ascii bs =
     (if list_all (\<lambda>b. b < 128) bs then Inr (map unat bs) else Inl UnicodeDecodeError)"

fun utf16_units :: "bytes \<Rightarrow> nat list option" where
  "utf16_units [] = Some []"
| "utf16_units [b] = None"
| "utf16_units (lo # hi # bs) =
     (case utf16_units bs of
        None \<Rightarrow> None
      | Some us \<Rightarrow> Some ((unat lo + 256 * unat hi) # us))"

fun utf16_points :: "nat list \<Rightarrow> pystr option" where
  "utf16_points [] = Some []"
| "utf16_points [u] = (if 0xD800 \<le> u \<and> u < 0xE000 then None else Some [u])"
| "utf16_points (u # v # us) =
     (if 0xD800 \<le> u \<and> u < 0xDC00
      then if 0xDC00 \<le> v \<and> v < 0xE000
           then case utf16_points us of
                  None \<Rightarrow> None
                | Some ps \<Rightarrow> Some ((0x10000 + (u - 0xD800) * 0x400 + (v - 0xDC00)) # ps)
           else None
      else if 0xDC00 \<le> u \<and> u < 0xE000 then None
      else case utf16_points (v # us) of
             None \<Rightarrow> None
           | Some ps \<Rightarrow> Some (u # ps))"

definition decode_utf16le :: "bytes \<Rightarrow> error + pystr" where
  "decode_utf16le bs =
     (case utf16_units bs of
        None \<Rightarrow> Inl UnicodeDecodeError
      | Some us \<Rightarrow> (case utf16_points us of
                     None \<Rightarrow> Inl UnicodeDecodeError
                   | Some ps \<Rightarrow> Inr ps))"

definition unit_bytes :: "nat \<Rightarrow> bytes" where
  "unit_bytes u = [of_nat (u mod 256), of_nat (u div 256)]"

fun encode_utf16le :: "pystr \<Rightarrow> error + bytes" where
  "encode_utf16le [] = Inr []"
| "encode_utf16le (c # cs) =
     (if 0xD800 \<le> c \<and> c < 0xE000 then Inl UnicodeEncodeError
      else case encode_utf16le cs of
             Inl e \<Rightarrow> Inl e
           | Inr bs \<Rightarrow>
               Inr ((if c < 0x10000 then unit_bytes c
                     else unit_bytes (0xD800 + (c - 0x10000) div 0x400) @
                          unit_bytes (0xDC00 + (c - 0x10000) mod 0x400)) @ bs))"

definition cont :: "byte \<Rightarrow> bool" where
  \<comment> \<open>a UTF-8 continuation byte\<close>
  "cont b = (0x80 \<le> b \<and> b \<le> 0xBF)"

definition low6 :: "byte \<Rightarrow> nat" where
  "low6 b = unat b mod 64"

fun utf8_points :: "bytes \<Rightarrow> pystr option" where
  "utf8_points [] = Some []"
| "utf8_points (a # bs) =
     (if a < 0x80 then
        (case utf8_points bs of None \<Rightarrow> None | Some ps \<Rightarrow> Some (unat a # ps))
      else if 0xC2 \<le> a \<and> a \<le> 0xDF then
        (case bs of
           b # r \<Rightarrow>
             if cont b
             then case utf8_points r of
                    None \<Rightarrow> None
                  | Some ps \<Rightarrow> Some ((unat a mod 32 * 64 + low6 b) # ps)
             else None
         | _ \<Rightarrow> None)
      else if 0xE0 \<le> a \<and> a \<le> 0xEF then
        (case bs of
           b # c # r \<Rightarrow>
             if cont b \<and> cont c \<and> (if a = 0xE0 then 0xA0 \<le> b else True) \<and>
                (if a = 0xED then b \<le> 0x9F else True)
             then case utf8_points r of
                    None \<Rightarrow> None
                  | Some ps \<Rightarrow> Some ((unat a mod 16 * 4096 + low6 b * 64 + low6 c) # ps)
             else None
         | _ \<Rightarrow> None)
      else if 0xF0 \<le> a \<and> a \<le> 0xF4 then
        (case bs of
           b # c # d # r \<Rightarrow>
             if cont b \<and> cont c \<and> cont d \<and> (if a = 0xF0 then 0x90 \<le> b else True) \<and>
                (if a = 0xF4 then b \<le> 0x8F else True)
             then case utf8_points r of
                    None \<Rightarrow> None
                  | Some ps \<Rightarrow>
                      Some ((unat a mod 8 * 262144 + low6 b * 4096 + low6 c * 64 + low6 d) # ps)
             else None
         | _ \<Rightarrow> None)
      else None)"

definition decode_utf8 :: "bytes \<Rightarrow> error + pystr" where
  "decode_utf8 bs = (case utf8_points bs of None \<Rightarrow> Inl UnicodeDecodeError | Some ps \<Rightarrow> Inr ps)"

section \<open>Messages and payloads\<close>

text \<open>
  A response payload is built from keyword arguments (\<open>setattr\<close> for each of them). The
  four correlation ids are there when the handler builds the arguments with
  \<open>response_args_from_req\<close>, and absent otherwise; \<open>getattr(payload, 'tid', 0)\<close> reads
  them with the default 0.
\<close>

record ids =
  kw_pid :: int
  kw_tid :: int
  kw_uid :: int
  kw_mid :: int

record negotiate_args =
  dialect_index :: int
  security_mode :: int
  max_mpx_count :: int
  max_number_vcs :: int
  max_buffer_size :: int
  max_raw_size :: int
  session_key :: int
  capabilities :: int
  system_time :: int
  server_time_zone :: int
  challenge_length :: int

record session_setup_request =
  req_max_buffer_size :: int
  req_max_mpx_count :: int
  req_vc_number :: int
  req_session_key :: int
  req_capabilities :: int
  req_password :: pystr
  req_username :: pystr
  req_domain :: pystr
  req_native_os :: pystr
  req_native_lan_man :: pystr

record tree_connect_request =
  req_tree_password :: pystr
  req_path :: pystr
  req_service :: pystr

record tree_connect_response =
  optional_support :: int
  service :: pystr
  native_file_system :: pystr
  self_parameters_data :: "bytes option"
  self_data :: "bytes option"

text \<open>
  An object of one of the library's own payload classes is known to this file only by the
  attributes the handler reads from a payload; each is there or not.
\<close>

record library_object =
  lib_dialects :: "pystr list option"
  lib_capabilities :: "int option"
  lib_domain :: "pystr option"
  lib_service :: "pystr option"
  lib_echo_count :: "int option"
  lib_echo_data :: "bytes option"

datatype payload =
    ComNegotiateRequest "pystr list"
  | ComSessionSetupAndxRequest session_setup_request
  | ComTreeConnectAndxRequest tree_connect_request
  | ComEchoRequest int bytes
  | ComNegotiateResponse "ids option" negotiate_args
  | ComSessionSetupAndxResponse "ids option" int pystr
  | ComTreeConnectAndxResponse "ids option" tree_connect_response
  | ComEchoResponse "ids option" int bytes
  | NullPayload "ids option" int
  | LibraryPayload library_object

record message =
  command :: int
  flags :: int
  flags2 :: int
  pid :: int
  tid :: int
  uid :: int
  mid :: int
  parameters_data :: bytes
  data :: bytes
  raw_data :: bytes
  payload :: "payload option"

section \<open>The library smb_structs\<close>

text \<open>
  smbserver.py imports \<open>smb.smb_structs\<close> of PySMB, which is not part of the repository.
  Its constants, struct formats and functions that the source uses are the fields of this
  record, and every definition below takes it as the parameter \<open>lib\<close>:
  \<^item> the command codes, flag bits and capability bits;
  \<^item> \<open>HEADER_STRUCT_SIZE\<close> of \<open>SMBMessage\<close>, \<open>DEFAULT_ANDX_PARAM_SIZE\<close> and
    \<open>DEFAULT_ANDX_PARAM_HEADER\<close> of \<open>Payload\<close>;
  \<^item> \<open>PAYLOAD_STRUCT_FORMAT\<close> of the four base classes that the source reads it from
    (for \<open>ComTreeConnectAndxResponse\<close> the attribute may be missing: \<open>None\<close>), and
    \<open>PAYLOAD_STRUCT_SIZE\<close> of \<open>ComTreeConnectAndxRequest\<close>;
  \<^item> \<open>new_message\<close>: a message as \<open>SMBMessage.__init__\<close> leaves it before it calls the
    payload's \<open>initMessage\<close>;
  \<^item> \<open>Payload_initMessage\<close>: \<open>Payload.initMessage(payload, message)\<close>, which
    \<open>init_reply\<close> calls before it reads \<open>message.flags\<close> and \<open>message.flags2\<close>. It is
    taken to assign these two fields and no other: the field gives the pair of values;
  \<^item> \<open>decode_header\<close>: what \<open>SMBMessage.decode\<close> does before it calls
    \<open>_decodePayload\<close>: it parses the buffer into the fields of the message;
  \<^item> \<open>pack_message\<close>: what \<open>SMBMessage.encode\<close> does after it has called the payload's
    \<open>prepare\<close>: it packs the fields of the message into bytes;
  \<^item> \<open>library_request\<close>: building and decoding one of the library's six request classes
    that \<open>_decodePayload\<close> selects by command;
  \<^item> \<open>super_decodePayload\<close>: \<open>_decodePayload\<close> of the base class, used for replies;
  \<^item> \<open>library_initMessage\<close> and \<open>library_prepare\<close>: the methods \<open>initMessage\<close> and
    \<open>prepare\<close> of a payload whose class does not define them in smbserver.py (the
    request classes, which inherit them, and the library's own classes).
\<close>

record smb_structs =
  SMB_COM_READ_ANDX :: int
  SMB_COM_WRITE_ANDX :: int
  SMB_COM_TRANSACTION :: int
  SMB_COM_TRANSACTION2 :: int
  SMB_COM_OPEN_ANDX :: int
  SMB_COM_NT_CREATE_ANDX :: int
  SMB_COM_TREE_CONNECT_ANDX :: int
  SMB_COM_ECHO :: int
  SMB_COM_SESSION_SETUP_ANDX :: int
  SMB_COM_NEGOTIATE :: int
  SMB_FLAGS_REPLY :: int
  SMB_FLAGS2_EXTENDED_SECURITY :: int
  SMB_FLAGS2_UNICODE :: int
  CAP_UNICODE :: int
  CAP_LARGE_FILES :: int
  CAP_STATUS32 :: int
  SMB_TREE_CONNECTX_SUPPORT_SEARCH :: int
  HEADER_STRUCT_SIZE :: int
  DEFAULT_ANDX_PARAM_SIZE :: int
  DEFAULT_ANDX_PARAM_HEADER :: bytes
  negotiate_response_format :: format
  session_setup_request_format :: format
  tree_connect_request_format :: format
  tree_connect_request_size :: int
  tree_connect_response_format :: "format option"
  new_message :: message
  Payload_initMessage :: "payload \<Rightarrow> message \<Rightarrow> int \<times> int"
  decode_header :: "bytes \<Rightarrow> error + message"
  pack_message :: "message \<Rightarrow> error + bytes"
  library_request :: "int \<Rightarrow> message \<Rightarrow> error + library_object"
  super_decodePayload :: "message \<Rightarrow> error + library_object option"
  library_initMessage :: "payload \<Rightarrow> message \<Rightarrow> message"
  library_prepare :: "payload \<Rightarrow> message \<Rightarrow> error + message"

section \<open>Decoding requests\<close>

subsection \<open>ComNegotiateRequest.decode\<close>

fun decode_all :: "('a \<Rightarrow> error + 'b) \<Rightarrow> 'a list \<Rightarrow> error + 'b list" where
  \<comment> \<open>a list comprehension whose element expression can raise\<close>
  "decode_all f [] = Inr []"
| "decode_all f (x # xs) =
     (case f x of
        Inl e \<Rightarrow> Inl e
      | Inr y \<Rightarrow> (case decode_all f xs of Inl e \<Rightarrow> Inl e | Inr ys \<Rightarrow> Inr (y # ys)))"

definition ComNegotiateRequest_decode :: "message \<Rightarrow> error + payload" where
  "ComNegotiateRequest_decode m =
     (let dialects = split_bytes 0 (data m);
          a = last dialects;
          dialects = butlast dialects
      in if a \<noteq> [] then Inl (ProtocolError ''Non-trailing null byte!'')
         else case decode_all (\<lambda>d. decode_ascii (lstrip 2 d)) dialects of
                Inl e \<Rightarrow> Inl e
              | Inr ds \<Rightarrow> Inr (ComNegotiateRequest ds))"

subsection \<open>The extension header and the aligned search for a terminator\<close>

definition non_terminal_andx :: error where
  \<comment> \<open>the exception of lines 121 and 201\<close>
  "non_terminal_andx =
     Exception ''We don't support non-terminal ANDX parameter blocks yet...''"

definition andx_check :: "smb_structs \<Rightarrow> message \<Rightarrow> error + unit" where
  \<comment> \<open>lines 116 to 121 of \<open>ComSessionSetupAndxRequest.decode\<close>, and the same lines 196 to 201
      of \<open>ComTreeConnectAndxRequest.decode\<close>\<close>
  "andx_check lib m =
     (let andx_header = py_slice_to (parameters_data m) (DEFAULT_ANDX_PARAM_SIZE lib)
      in case struct_unpack (BigEndian, [U8, U8, U16]) andx_header of
           Inl e \<Rightarrow> Inl e
         | Inr vs \<Rightarrow>
             (case vs of
                [andx_command, andx_reserved, andx_offset] \<Rightarrow>
                  if \<not> (andx_command = 0xff \<and> \<not> andx_offset \<noteq> 0)
                  then Inl non_terminal_andx
                  else Inr ()
              | _ \<Rightarrow> Inl ValueError))"

lemma find_sub_bounds:
  "find_sub sub xs k = Some p \<Longrightarrow> k \<le> p \<and> p \<le> k + length xs"
proof (induction xs arbitrary: k)
  case Nil
  then show ?case by (simp split: if_splits)
next
  case (Cons x xs)
  show ?case
  proof (cases "take (length sub) (x # xs) = sub")
    case True
    with Cons.prems show ?thesis by simp
  next
    case False
    with Cons.prems have "find_sub sub xs (Suc k) = Some p" by simp
    from Cons.IH [OF this] show ?thesis by simp
  qed
qed

lemma bytes_index_bounds:
  assumes "bytes_index xs sub start = Inr p"
  shows "start \<le> int p" and "p \<le> length xs"
proof -
  define st where "st = search_start (length xs) start"
  from assms have le: "st \<le> length xs" and f: "find_sub sub (drop st xs) st = Some p"
    by (auto simp: bytes_index_def Let_def st_def split: if_splits option.splits)
  from find_sub_bounds [OF f] le have "st \<le> p" and "p \<le> length xs" by simp_all
  then show "start \<le> int p" and "p \<le> length xs"
    by (auto simp: st_def search_start_def split: if_splits)
qed

text \<open>
  The loop \<open>while True: next_offset = buf.index(term, s); if (next_offset + base) % 2:
  s = next_offset + 1 else: break\<close>. In \<open>ComSessionSetupAndxRequest.decode\<close> (lines 146 to
  150) the buffer is \<open>raw_data\<close> and \<open>base\<close> is 0; in \<open>ComTreeConnectAndxRequest.decode\<close>
  (lines 215 to 221) the buffer is \<open>data\<close> and \<open>base\<close> is
  \<open>HEADER_STRUCT_SIZE + len(parameters_data)\<close>.
\<close>

function aligned_index :: "bytes \<Rightarrow> bytes \<Rightarrow> int \<Rightarrow> int \<Rightarrow> error + nat" where
  "aligned_index buf term base s =
     (case bytes_index buf term s of
        Inl e \<Rightarrow> Inl e
      | Inr next_offset \<Rightarrow>
          if (int next_offset + base) mod 2 \<noteq> 0
          then aligned_index buf term base (int next_offset + 1)
          else Inr next_offset)"
  by pat_completeness auto
termination
proof (relation "measure (\<lambda>(buf, term, base, s). nat (int (length buf) + 1 - s))")
  show "wf (measure (\<lambda>(buf, term, base, s). nat (int (length buf) + 1 - s)))" by simp
next
  fix buf tm :: bytes and base s :: int and next_offset :: nat
  assume "bytes_index buf tm s = Inr next_offset"
  from bytes_index_bounds [OF this]
  show "((buf, tm, base, int next_offset + 1), (buf, tm, base, s))
          \<in> measure (\<lambda>(buf, term, base, s). nat (int (length buf) + 1 - s))"
    by simp
qed

subsection \<open>ComSessionSetupAndxRequest.decode\<close>

definition read_padding :: "message \<Rightarrow> int \<Rightarrow> bool \<Rightarrow> error + int" where
  \<comment> \<open>lines 136 to 139: the pad byte before the strings\<close>
  "read_padding m raw_offset is_unicode =
     (if raw_offset mod 2 \<noteq> 0 \<and> is_unicode
      then case py_getitem (raw_data m) raw_offset of
             Inl e \<Rightarrow> Inl e
           | Inr b \<Rightarrow>
               if b \<noteq> 0 then Inl (Exception ''Was expecting null byte!'')
               else Inr (raw_offset + 1)
      else Inr raw_offset)"

fun read_strings ::
  "bytes \<Rightarrow> bytes \<Rightarrow> (bytes \<Rightarrow> error + pystr) \<Rightarrow> string list \<Rightarrow> int \<Rightarrow> error + (string \<times> pystr) list"
where
  \<comment> \<open>lines 144 to 152: the loop over the names, filling \<open>elts\<close>\<close>
  "read_strings raw term decode [] raw_offset = Inr []"
| "read_strings raw term decode (n # ns) raw_offset =
     (case aligned_index raw term 0 raw_offset of
        Inl e \<Rightarrow> Inl e
      | Inr next_offset \<Rightarrow>
          (case decode (py_slice raw raw_offset (int next_offset)) of
             Inl e \<Rightarrow> Inl e
           | Inr v \<Rightarrow>
               (case read_strings raw term decode ns (int next_offset + int (length term)) of
                  Inl e \<Rightarrow> Inl e
                | Inr elts \<Rightarrow> Inr ((n, v) # elts))))"

definition elt :: "(string \<times> pystr) list \<Rightarrow> string \<Rightarrow> pystr" where
  \<comment> \<open>\<open>elts[n]\<close> for one of the four names, all of them keys of \<open>elts\<close>\<close>
  "elt elts n = (case map_of elts n of None \<Rightarrow> [] | Some v \<Rightarrow> v)"

definition ComSessionSetupAndxRequest_decode :: "smb_structs \<Rightarrow> message \<Rightarrow> error + payload" where
  "ComSessionSetupAndxRequest_decode lib m =
     (case andx_check lib m of
        Inl e \<Rightarrow> Inl e
      | Inr _ \<Rightarrow>
     (case struct_unpack (session_setup_request_format lib)
             (py_slice_from (parameters_data m) (DEFAULT_ANDX_PARAM_SIZE lib)) of
        Inl e \<Rightarrow> Inl e
      | Inr params_o \<Rightarrow>
     (case params_o of
        [max_buffer_size', max_mpx_count', vc_number, session_key',
         length1, length2, reserved, capabilities'] \<Rightarrow>
          (let is_unicode = (flags2 m AND SMB_FLAGS2_UNICODE lib \<noteq> 0)
           in case decode_ascii (rstrip 0 (py_slice_to (data m) length1)) of
                Inl e \<Rightarrow> Inl e
              | Inr case_insensitive_password \<Rightarrow>
             (case decode_ascii (rstrip 0 (py_slice (data m) length1 (length1 + length2))) of
                Inl e \<Rightarrow> Inl e
              | Inr case_sensitive_password \<Rightarrow>
             (case read_padding m
                     (HEADER_STRUCT_SIZE lib + int (length (parameters_data m)) + 2 +
                      length1 + length2) is_unicode of
                Inl e \<Rightarrow> Inl e
              | Inr raw_offset \<Rightarrow>
             (case read_strings (raw_data m)
                     (if is_unicode then [0, 0] else [0])
                     (if is_unicode then decode_utf16le else decode_ascii)
                     [''username'', ''domain'', ''nativeos'', ''nativelanman'']
                     raw_offset of
                Inl e \<Rightarrow> Inl e
              | Inr elts \<Rightarrow>
                  Inr (ComSessionSetupAndxRequest
                        \<lparr>req_max_buffer_size = max_buffer_size',
                         req_max_mpx_count = max_mpx_count',
                         req_vc_number = vc_number,
                         req_session_key = session_key',
                         req_capabilities = capabilities',
                         req_password = (if case_insensitive_password \<noteq> []
                                         then case_insensitive_password
                                         else case_sensitive_password),
                         req_username = elt elts ''username'',
                         req_domain = elt elts ''domain'',
                         req_native_os = elt elts ''nativeos'',
                         req_native_lan_man = elt elts ''nativelanman''\<rparr>)))))
      | _ \<Rightarrow> Inl ValueError)))"

subsection \<open>ComTreeConnectAndxRequest.decode\<close>

definition read_share_padding :: "smb_structs \<Rightarrow> message \<Rightarrow> int \<Rightarrow> error + int" where
  \<comment> \<open>lines 208 to 213\<close>
  "read_share_padding lib m password_len =
     (if (HEADER_STRUCT_SIZE lib + int (length (parameters_data m)) + password_len) mod 2 \<noteq> 0
      then case py_getitem (data m) password_len of
             Inl e \<Rightarrow> Inl e
           | Inr b \<Rightarrow>
               if b \<noteq> 0 then Inl (Exception ''Was expecting null byte padding!'')
               else Inr (password_len + 1)
      else Inr password_len)"

definition ComTreeConnectAndxRequest_decode :: "smb_structs \<Rightarrow> message \<Rightarrow> error + payload" where
  "ComTreeConnectAndxRequest_decode lib m =
     (case andx_check lib m of
        Inl e \<Rightarrow> Inl e
      | Inr _ \<Rightarrow>
     (case struct_unpack (tree_connect_request_format lib)
             (py_slice (parameters_data m) (DEFAULT_ANDX_PARAM_SIZE lib)
                (tree_connect_request_size lib + DEFAULT_ANDX_PARAM_SIZE lib)) of
        Inl e \<Rightarrow> Inl e
      | Inr vs \<Rightarrow>
     (case vs of
        [flags', password_len] \<Rightarrow>
          (case decode_utf8 (rstrip 0 (py_slice_to (data m) password_len)) of
             Inl e \<Rightarrow> Inl e
           | Inr password \<Rightarrow>
          (case read_share_padding lib m password_len of
             Inl e \<Rightarrow> Inl e
           | Inr offset \<Rightarrow>
          (case aligned_index (data m) [0, 0]
                  (HEADER_STRUCT_SIZE lib + int (length (parameters_data m))) offset of
             Inl e \<Rightarrow> Inl e
           | Inr share_name_offset \<Rightarrow>
          (case decode_utf16le (py_slice (data m) offset (int share_name_offset)) of
             Inl e \<Rightarrow> Inl e
           | Inr path \<Rightarrow>
          (case bytes_index (data m) [0] (int share_name_offset + 2) of
             Inl e \<Rightarrow> Inl e
           | Inr service_off \<Rightarrow>
          (case decode_ascii (py_slice (data m) (int share_name_offset + 2) (int service_off)) of
             Inl e \<Rightarrow> Inl e
           | Inr service' \<Rightarrow>
               Inr (ComTreeConnectAndxRequest
                     \<lparr>req_tree_password = password, req_path = path,
                      req_service = service'\<rparr>)))))))
      | _ \<Rightarrow> Inl ValueError)))"

subsection \<open>ComEchoRequest.decode\<close>

definition ComEchoRequest_decode :: "message \<Rightarrow> error + payload" where
  "ComEchoRequest_decode m =
     (let fmt = (LittleEndian, [U16]);
          fmt_size = calcsize fmt
      in case struct_unpack fmt (py_slice_to (parameters_data m) (int fmt_size)) of
           Inl e \<Rightarrow> Inl e
         | Inr vs \<Rightarrow>
             (case vs of
                [echo_count] \<Rightarrow> Inr (ComEchoRequest echo_count (data m))
              | _ \<Rightarrow> Inl ValueError))"

subsection \<open>SMBMessage._decodePayload\<close>

definition isReply :: "smb_structs \<Rightarrow> message \<Rightarrow> bool" where
  \<comment> \<open>Modelled from the spec: the property \<open>isReply\<close> of the library's \<open>SMBMessage\<close>, which
      is not under src/. By the spec the reply flag bit of \<open>flags\<close> gives the direction.\<close>
  "isReply lib m = (flags m AND SMB_FLAGS_REPLY lib \<noteq> 0)"

definition with_payload :: "message \<Rightarrow> error + payload \<Rightarrow> error + message" where
  "with_payload m r = (case r of Inl e \<Rightarrow> Inl e | Inr p \<Rightarrow> Inr (m\<lparr>payload := Some p\<rparr>))"

definition with_library :: "message \<Rightarrow> error + library_object \<Rightarrow> error + message" where
  "with_library m r =
     (case r of Inl e \<Rightarrow> Inl e | Inr ob \<Rightarrow> Inr (m\<lparr>payload := Some (LibraryPayload ob)\<rparr>))"

definition decodePayload :: "smb_structs \<Rightarrow> message \<Rightarrow> error + message" where
  "decodePayload lib m =
     (if isReply lib m then
        (case super_decodePayload lib m of
           Inl e \<Rightarrow> Inl e
         | Inr ob \<Rightarrow> Inr (m\<lparr>payload := map_option LibraryPayload ob\<rparr>))
      else if command m = SMB_COM_READ_ANDX lib then with_library m (library_request lib (command m) m)
      else if command m = SMB_COM_WRITE_ANDX lib then with_library m (library_request lib (command m) m)
      else if command m = SMB_COM_TRANSACTION lib then with_library m (library_request lib (command m) m)
      else if command m = SMB_COM_TRANSACTION2 lib then with_library m (library_request lib (command m) m)
      else if command m = SMB_COM_OPEN_ANDX lib then with_library m (library_request lib (command m) m)
      else if command m = SMB_COM_NT_CREATE_ANDX lib then with_library m (library_request lib (command m) m)
      else if command m = SMB_COM_TREE_CONNECT_ANDX lib
        then with_payload m (ComTreeConnectAndxRequest_decode lib m)
      else if command m = SMB_COM_ECHO lib then with_payload m (ComEchoRequest_decode m)
      else if command m = SMB_COM_SESSION_SETUP_ANDX lib
        then with_payload m (ComSessionSetupAndxRequest_decode lib m)
      else if command m = SMB_COM_NEGOTIATE lib then with_payload m (ComNegotiateRequest_decode m)
      else Inr m)"

definition decode_smb_message :: "smb_structs \<Rightarrow> bytes \<Rightarrow> error + message" where
  \<comment> \<open>\<open>i = SMBMessage(); i.decode(message)\<close>: the library parses the header of a message
      that has no payload yet, then calls \<open>_decodePayload\<close>\<close>
  "decode_smb_message lib buf =
     (case decode_header lib buf of
        Inl e \<Rightarrow> Inl e
      | Inr m \<Rightarrow> decodePayload lib (m\<lparr>payload := None\<rparr>))"

section \<open>Building responses\<close>

subsection \<open>init_reply and prepare\<close>

fun kwargs :: "payload \<Rightarrow> ids option" where
  \<comment> \<open>the correlation ids among the keyword arguments a response payload was built from\<close>
  "kwargs (ComNegotiateResponse kw a) = kw"
| "kwargs (ComSessionSetupAndxResponse kw action domain) = kw"
| "kwargs (ComTreeConnectAndxResponse kw r) = kw"
| "kwargs (ComEchoResponse kw sequence_number d) = kw"
| "kwargs (NullPayload kw c) = kw"
| "kwargs p = None"

definition getattr :: "payload \<Rightarrow> (ids \<Rightarrow> int) \<Rightarrow> int \<Rightarrow> int" where
  \<comment> \<open>\<open>getattr(payload, name, default)\<close> for one of the names pid, tid, uid, mid\<close>
  "getattr p name dflt = (case kwargs p of None \<Rightarrow> dflt | Some kw \<Rightarrow> name kw)"

definition init_reply :: "smb_structs \<Rightarrow> payload \<Rightarrow> message \<Rightarrow> int \<Rightarrow> message" where
  "init_reply lib p m0 c =
     (let m = (case Payload_initMessage lib p m0 of (f, f2) \<Rightarrow> m0\<lparr>flags := f, flags2 := f2\<rparr>);
          m = m\<lparr>command := c\<rparr>;
          m = m\<lparr>flags := flags m OR SMB_FLAGS_REPLY lib\<rparr>;
          m = m\<lparr>flags2 := flags2 m AND NOT (SMB_FLAGS2_EXTENDED_SECURITY lib)\<rparr>;
          m = m\<lparr>tid := getattr p kw_tid 0\<rparr>;
          m = m\<lparr>uid := getattr p kw_uid 0\<rparr>;
          m = m\<lparr>mid := getattr p kw_mid 0\<rparr>
      in m)"

definition prepare :: "payload \<Rightarrow> message \<Rightarrow> message" where
  \<comment> \<open>the function \<open>prepare\<close> of lines 72 to 74. Its assertion \<open>message.payload is payload\<close>
      holds wherever the model calls it: \<open>SMBMessage_encode\<close> prepares a message with its
      own payload.\<close>
  "prepare p m = m\<lparr>pid := getattr p kw_pid 0\<rparr>"

subsection \<open>The methods initMessage and prepare of each payload class\<close>

fun initMessage :: "smb_structs \<Rightarrow> payload \<Rightarrow> message \<Rightarrow> message" where
  "initMessage lib (ComNegotiateResponse kw a) m =
     init_reply lib (ComNegotiateResponse kw a) m (SMB_COM_NEGOTIATE lib)"
| "initMessage lib (ComSessionSetupAndxResponse kw action domain) m =
     init_reply lib (ComSessionSetupAndxResponse kw action domain) m (SMB_COM_SESSION_SETUP_ANDX lib)"
| "initMessage lib (ComTreeConnectAndxResponse kw r) m =
     init_reply lib (ComTreeConnectAndxResponse kw r) m (SMB_COM_TREE_CONNECT_ANDX lib)"
| "initMessage lib (ComEchoResponse kw sequence_number d) m =
     init_reply lib (ComEchoResponse kw sequence_number d) m (SMB_COM_ECHO lib)"
| "initMessage lib (NullPayload kw c) m = init_reply lib (NullPayload kw c) m c"
| "initMessage lib p m = library_initMessage lib p m"

definition ComNegotiateResponse_prepare ::
  "smb_structs \<Rightarrow> ids option \<Rightarrow> negotiate_args \<Rightarrow> message \<Rightarrow> error + message" where
  "ComNegotiateResponse_prepare lib kw a m0 =
     (let m = prepare (ComNegotiateResponse kw a) m0
      in case struct_pack (negotiate_response_format lib)
                [dialect_index a, security_mode a, max_mpx_count a, max_number_vcs a,
                 max_buffer_size a, max_raw_size a, session_key a, capabilities a,
                 system_time a, server_time_zone a, challenge_length a] of
           Inl e \<Rightarrow> Inl e
         | Inr bs \<Rightarrow> Inr (m\<lparr>parameters_data := bs, data := []\<rparr>))"

definition ComSessionSetupAndxResponse_prepare ::
  "smb_structs \<Rightarrow> ids option \<Rightarrow> int \<Rightarrow> pystr \<Rightarrow> message \<Rightarrow> error + message" where
  "ComSessionSetupAndxResponse_prepare lib kw action domain m0 =
     (let m = prepare (ComSessionSetupAndxResponse kw action domain) m0;
          security_blob = []
      in case kw of
           None \<Rightarrow> Inl AttributeError
         | Some i \<Rightarrow>
        (case struct_pack (LittleEndian, [U16, U16]) [action, int (length security_blob)] of
           Inl e \<Rightarrow> Inl e
         | Inr bs \<Rightarrow>
        (let m = m\<lparr>pid := kw_pid i\<rparr>;
             m = m\<lparr>parameters_data := DEFAULT_ANDX_PARAM_HEADER lib @ bs\<rparr>;
             pad = (if (HEADER_STRUCT_SIZE lib + int (length (parameters_data m)) +
                        int (length security_blob)) mod 2 \<noteq> 0
                    then [0] else [])
         in case decode_all (\<lambda>x. case encode_utf16le x of
                                     Inl e \<Rightarrow> Inl e
                                   | Inr u \<Rightarrow> Inr (u @ [0, 0]))
                   [py_str ''Unix'', py_str ''DropboxFS'', domain] of
              Inl e \<Rightarrow> Inl e
            | Inr strs \<Rightarrow> Inr (m\<lparr>data := security_blob @ pad @ concat strs\<rparr>))))"

definition ComTreeConnectAndxResponse_prepare ::
  "smb_structs \<Rightarrow> ids option \<Rightarrow> tree_connect_response \<Rightarrow> message \<Rightarrow> error + message" where
  \<comment> \<open>lines 238 and 243 assign to \<open>self\<close>, the payload, and not to \<open>message\<close>\<close>
  "ComTreeConnectAndxResponse_prepare lib kw r m0 =
     (let m = prepare (ComTreeConnectAndxResponse kw r) m0
      in case tree_connect_response_format lib of
           None \<Rightarrow> Inl AttributeError
         | Some fmt \<Rightarrow>
        (case struct_pack fmt [0xff, 0, 0, optional_support r] of
           Inl e \<Rightarrow> Inl e
         | Inr bs \<Rightarrow>
             Inr (m\<lparr>payload :=
                      Some (ComTreeConnectAndxResponse kw
                             (r\<lparr>self_parameters_data := Some bs,
                                self_data := Some (py_bytes ''A:'' @ [0])\<rparr>))\<rparr>)))"

definition ComEchoResponse_prepare ::
  "ids option \<Rightarrow> int \<Rightarrow> bytes \<Rightarrow> message \<Rightarrow> error + message" where
  "ComEchoResponse_prepare kw sequence_number d m0 =
     (let m = prepare (ComEchoResponse kw sequence_number d) m0
      in case struct_pack (LittleEndian, [U16]) [sequence_number] of
           Inl e \<Rightarrow> Inl e
         | Inr bs \<Rightarrow> Inr (m\<lparr>parameters_data := bs, data := d\<rparr>))"

fun payload_prepare :: "smb_structs \<Rightarrow> payload \<Rightarrow> message \<Rightarrow> error + message" where
  "payload_prepare lib (ComNegotiateResponse kw a) m = ComNegotiateResponse_prepare lib kw a m"
| "payload_prepare lib (ComSessionSetupAndxResponse kw action domain) m =
     ComSessionSetupAndxResponse_prepare lib kw action domain m"
| "payload_prepare lib (ComTreeConnectAndxResponse kw r) m =
     ComTreeConnectAndxResponse_prepare lib kw r m"
| "payload_prepare lib (ComEchoResponse kw sequence_number d) m =
     ComEchoResponse_prepare kw sequence_number d m"
| "payload_prepare lib (NullPayload kw c) m = Inr (prepare (NullPayload kw c) m)"
| "payload_prepare lib p m = library_prepare lib p m"

subsection \<open>The constructor and encode of SMBMessage\<close>

definition SMBMessage_init :: "smb_structs \<Rightarrow> payload \<Rightarrow> message" where
  \<comment> \<open>Modelled from the spec: \<open>SMBMessage(payload)\<close>, the constructor of the library's class,
      which is not under src/. It stores the payload in a new message and calls the payload's
      \<open>initMessage\<close> on it (spec 4.3: each variant supports \<open>initMessage/prepare(message)\<close>
      on the response side).\<close>
  "SMBMessage_init lib p = initMessage lib p ((new_message lib)\<lparr>payload := Some p\<rparr>)"

definition SMBMessage_encode :: "smb_structs \<Rightarrow> message \<Rightarrow> error + message \<times> bytes" where
  \<comment> \<open>Modelled from the spec: \<open>SMBMessage.encode\<close> of the library, which is not under src/.
      It calls the payload's \<open>prepare\<close>, which produces the parameters and data blocks
      (spec 4.3), then packs the fields of the message (spec 6). The process id it stores
      before \<open>prepare\<close> is overwritten there (line 74, and the comment of line 179).\<close>
  "SMBMessage_encode lib m =
     (case payload m of
        None \<Rightarrow> Inl AssertionError
      | Some p \<Rightarrow>
          (case payload_prepare lib p m of
             Inl e \<Rightarrow> Inl e
           | Inr m' \<Rightarrow>
               (case pack_message lib m' of
                  Inl e \<Rightarrow> Inl e
                | Inr raw \<Rightarrow> Inr (m', raw))))"

section \<open>The connection\<close>

text \<open>
  The socket of a connection: \<open>incoming\<close> holds what the peer sends, in the segments in
  which \<open>recv\<close> will deliver it (a \<open>recv\<close> returns at most one segment, and at most the
  number of bytes asked for); when no segment is left the peer has closed the stream and
  \<open>recv\<close> returns the empty bytes. \<open>sent\<close> collects the argument of every \<open>sendall\<close>.
\<close>

record sock =
  incoming :: "bytes list"
  sent :: "bytes list"

fun recv_segment :: "bytes list \<Rightarrow> nat \<Rightarrow> bytes \<times> bytes list" where
  "recv_segment [] n = ([], [])"
| "recv_segment (c # cs) n =
     (if c = [] then recv_segment cs n
      else (take n c, if n < length c then drop n c # cs else cs))"

definition sock_recv :: "sock \<Rightarrow> int \<Rightarrow> (error + bytes) \<times> sock" where
  \<comment> \<open>\<open>sock.recv(n)\<close>, which refuses a negative size\<close>
  "sock_recv s n =
     (if n < 0 then (Inl ValueError, s)
      else case recv_segment (incoming s) (nat n) of
             (b, rest) \<Rightarrow> (Inr b, s\<lparr>incoming := rest\<rparr>))"

definition sock_sendall :: "sock \<Rightarrow> bytes \<Rightarrow> sock" where
  "sock_sendall s bs = s\<lparr>sent := sent s @ [bs]\<rparr>"

lemma recv_segment_length: "length (fst (recv_segment cs n)) \<le> n"
  by (induction cs) auto

lemma sock_recv_length:
  assumes "sock_recv s n = (Inr b, s')"
  shows "int (length b) \<le> n"
proof -
  from assms have n: "0 \<le> n" and b: "b = fst (recv_segment (incoming s) (nat n))"
    by (auto simp: sock_recv_def split: if_splits prod.splits)
  from recv_segment_length [of "incoming s" "nat n"] n b show ?thesis by simp
qed

function recv_loop :: "sock \<Rightarrow> int \<Rightarrow> int \<Rightarrow> bytes list \<Rightarrow> (error + bytes) \<times> sock" where
  \<comment> \<open>the loop of \<open>recv_all\<close>, from the state \<open>recvd\<close>, \<open>toret\<close>\<close>
  "recv_loop s len recvd toret =
     (if recvd \<noteq> len
      then case sock_recv s (len - recvd) of
             (Inl e, s') \<Rightarrow> (Inl e, s')
           | (Inr b, s') \<Rightarrow>
               if b = [] then (Inl (Exception ''EOF while expecting data!''), s')
               else recv_loop s' len (recvd + int (length b)) (toret @ [b])
      else (Inr (concat toret), s))"
  by pat_completeness auto
termination
  apply (relation "measure (\<lambda>(s, len, recvd, toret). nat (len - recvd))")
   apply simp
  apply (auto dest!: sym [THEN sock_recv_length])
  done

definition recv_all :: "sock \<Rightarrow> int \<Rightarrow> (error + bytes) \<times> sock" where
  "recv_all s len = recv_loop s len 0 []"

definition read_message :: "smb_structs \<Rightarrow> sock \<Rightarrow> (error + message) \<times> sock" where
  "read_message lib s =
     (case sock_recv s 4 of
        (Inl e, s1) \<Rightarrow> (Inl e, s1)
      | (Inr d, s1) \<Rightarrow>
          (case struct_unpack (BigEndian, [U32]) d of
             Inl e \<Rightarrow> (Inl e, s1)
           | Inr vs \<Rightarrow>
               (case vs of
                  [len] \<Rightarrow>
                    (case recv_all s1 len of
                       (Inl e, s2) \<Rightarrow> (Inl e, s2)
                     | (Inr buf, s2) \<Rightarrow> (decode_smb_message lib buf, s2))
                | _ \<Rightarrow> (Inl ValueError, s1))))"

definition send_message :: "smb_structs \<Rightarrow> message \<Rightarrow> sock \<Rightarrow> (error + message) \<times> sock" where
  \<comment> \<open>returns the message as \<open>encode\<close> and the assignment to \<open>raw_data\<close> leave it\<close>
  "send_message lib msg s =
     (case SMBMessage_encode lib msg of
        Inl e \<Rightarrow> (Inl e, s)
      | Inr (msg', raw) \<Rightarrow>
          (case struct_pack (BigEndian, [U32]) [int (length raw)] of
             Inl e \<Rightarrow> (Inl e, s)
           | Inr len \<Rightarrow> (Inr (msg'\<lparr>raw_data := raw\<rparr>), sock_sendall s (len @ raw))))"

section \<open>SMBClientHandler.handle\<close>

subsection \<open>Reading an attribute of a request's payload\<close>

text \<open>
  \<open>req.payload.name\<close> raises AttributeError when the payload is \<open>None\<close> or an object
  without that attribute. The request classes of smbserver.py have the attributes their
  \<open>decode\<close> sets.
\<close>

fun payload_dialects :: "payload option \<Rightarrow> error + pystr list" where
  "payload_dialects (Some (ComNegotiateRequest ds)) = Inr ds"
| "payload_dialects (Some (LibraryPayload ob)) =
     (case lib_dialects ob of None \<Rightarrow> Inl AttributeError | Some ds \<Rightarrow> Inr ds)"
| "payload_dialects p = Inl AttributeError"

fun payload_capabilities :: "payload option \<Rightarrow> error + int" where
  "payload_capabilities (Some (ComSessionSetupAndxRequest r)) = Inr (req_capabilities r)"
| "payload_capabilities (Some (LibraryPayload ob)) =
     (case lib_capabilities ob of None \<Rightarrow> Inl AttributeError | Some c \<Rightarrow> Inr c)"
| "payload_capabilities p = Inl AttributeError"

fun payload_domain :: "payload option \<Rightarrow> error + pystr" where
  "payload_domain (Some (ComSessionSetupAndxRequest r)) = Inr (req_domain r)"
| "payload_domain (Some (LibraryPayload ob)) =
     (case lib_domain ob of None \<Rightarrow> Inl AttributeError | Some d \<Rightarrow> Inr d)"
| "payload_domain p = Inl AttributeError"

fun payload_service :: "payload option \<Rightarrow> error + pystr" where
  "payload_service (Some (ComTreeConnectAndxRequest r)) = Inr (req_service r)"
| "payload_service (Some (LibraryPayload ob)) =
     (case lib_service ob of None \<Rightarrow> Inl AttributeError | Some v \<Rightarrow> Inr v)"
| "payload_service p = Inl AttributeError"

fun payload_echo_count :: "payload option \<Rightarrow> error + int" where
  "payload_echo_count (Some (ComEchoRequest echo_count echo_data)) = Inr echo_count"
| "payload_echo_count (Some (LibraryPayload ob)) =
     (case lib_echo_count ob of None \<Rightarrow> Inl AttributeError | Some c \<Rightarrow> Inr c)"
| "payload_echo_count p = Inl AttributeError"

fun payload_echo_data :: "payload option \<Rightarrow> error + bytes" where
  "payload_echo_data (Some (ComEchoRequest echo_count echo_data)) = Inr echo_data"
| "payload_echo_data (Some (LibraryPayload ob)) =
     (case lib_echo_data ob of None \<Rightarrow> Inl AttributeError | Some d \<Rightarrow> Inr d)"
| "payload_echo_data p = Inl AttributeError"

subsection \<open>The response to each of the four requests\<close>

definition response_args_from_req :: "message \<Rightarrow> ids" where
  "response_args_from_req req =
     \<lparr>kw_pid = pid req, kw_tid = tid req, kw_uid = uid req, kw_mid = mid req\<rparr>"

definition server_capabilities :: "smb_structs \<Rightarrow> int" where
  \<comment> \<open>lines 321 to 323\<close>
  "server_capabilities lib = CAP_UNICODE lib OR CAP_LARGE_FILES lib OR CAP_STATUS32 lib"

text \<open>
  The clock: \<open>int_ts\<close> is \<open>int(time.time())\<close> and \<open>utc_offset\<close> the local offset in
  minutes that lines 328 and 329 compute from the two \<open>datetime\<close> values.
\<close>

record clock =
  int_ts :: int
  utc_offset :: int

definition handle_negotiate :: "smb_structs \<Rightarrow> clock \<Rightarrow> message \<Rightarrow> error + message" where
  \<comment> \<open>lines 318 to 345, from the request read to the response that is sent\<close>
  "handle_negotiate lib clk negotiate_req =
     (if command negotiate_req \<noteq> SMB_COM_NEGOTIATE lib
      then Inl (Exception ''Got unexpected request'')
      else
        (let win32_time = (int_ts clk + 11644473600) * 10000000
         in case payload_dialects (payload negotiate_req) of
              Inl e \<Rightarrow> Inl e
            | Inr ds \<Rightarrow>
                (case list_index ds (py_str ''NT LM 0.12'') of
                   Inl e \<Rightarrow> Inl e
                 | Inr i \<Rightarrow>
                     Inr (SMBMessage_init lib
                           (ComNegotiateResponse None
                             \<lparr>dialect_index = i,
                              security_mode = 0,
                              max_mpx_count = 2 ^ 16 - 1,
                              max_number_vcs = 2 ^ 16 - 1,
                              max_buffer_size = 2 ^ 16 - 1,
                              max_raw_size = 2 ^ 16 - 1,
                              session_key = 0,
                              capabilities = server_capabilities lib,
                              system_time = win32_time,
                              server_time_zone = utc_offset clk,
                              challenge_length = 0\<rparr>)))))"

definition handle_session_setup :: "smb_structs \<Rightarrow> message \<Rightarrow> error + message" where
  \<comment> \<open>lines 351 to 360\<close>
  "handle_session_setup lib session_setup_andx_req =
     (if command session_setup_andx_req \<noteq> SMB_COM_SESSION_SETUP_ANDX lib
      then Inl (Exception ''Got unexpected request'')
      else case payload_capabilities (payload session_setup_andx_req) of
             Inl e \<Rightarrow> Inl e
           | Inr caps \<Rightarrow>
               if caps AND NOT (server_capabilities lib) \<noteq> 0
               then Inl (Exception ''Client sent capabilities outside of the server posted caps'')
               else (case payload_domain (payload session_setup_andx_req) of
                       Inl e \<Rightarrow> Inl e
                     | Inr d \<Rightarrow>
                         Inr (SMBMessage_init lib
                               (ComSessionSetupAndxResponse
                                 (Some (response_args_from_req session_setup_andx_req)) 1 d))))"

definition handle_tree_connect :: "smb_structs \<Rightarrow> message \<Rightarrow> error + message" where
  \<comment> \<open>lines 364 to 375\<close>
  "handle_tree_connect lib tree_connect_andx_req =
     (if command tree_connect_andx_req \<noteq> SMB_COM_TREE_CONNECT_ANDX lib
      then Inl (Exception ''Got unexpected request'')
      else case payload_service (payload tree_connect_andx_req) of
             Inl e \<Rightarrow> Inl e
           | Inr v \<Rightarrow>
               if v \<noteq> py_str ''?????'' \<and> v \<noteq> py_str ''A:''
               then Inl (Exception ''We don't provide the requested service'')
               else Inr (SMBMessage_init lib
                          (ComTreeConnectAndxResponse
                            (Some (response_args_from_req tree_connect_andx_req))
                            \<lparr>optional_support = SMB_TREE_CONNECTX_SUPPORT_SEARCH lib,
                             service = py_str ''A:'',
                             native_file_system = py_str ''FAT'',
                             self_parameters_data = None,
                             self_data = None\<rparr>)))"

definition handle_echo :: "smb_structs \<Rightarrow> message \<Rightarrow> error + message" where
  \<comment> \<open>lines 378 to 384. Line 379 formats its message from \<open>req\<close>, a name that is not
      defined in \<open>handle\<close>: it raises NameError in place of the Exception.\<close>
  "handle_echo lib echo_req =
     (case payload_echo_count (payload echo_req) of
        Inl e \<Rightarrow> Inl e
      | Inr c \<Rightarrow>
          if c > 1 then Inl NameError
          else (case payload_echo_data (payload echo_req) of
                  Inl e \<Rightarrow> Inl e
                | Inr d \<Rightarrow>
                    Inr (SMBMessage_init lib
                          (ComEchoResponse (Some (response_args_from_req echo_req)) 0 d))))"

subsection \<open>The four exchanges in order\<close>

definition exchange ::
  "smb_structs \<Rightarrow> (message \<Rightarrow> error + message) \<Rightarrow> sock \<Rightarrow> (error + message \<times> message) \<times> sock"
where
  \<comment> \<open>\<open>read_message\<close>, the checks and the response of one step, \<open>send_message\<close>; the
      result is the request and the response as sent\<close>
  "exchange lib respond s =
     (case read_message lib s of
        (Inl e, s1) \<Rightarrow> (Inl e, s1)
      | (Inr req, s1) \<Rightarrow>
          (case respond req of
             Inl e \<Rightarrow> (Inl e, s1)
           | Inr resp \<Rightarrow>
               (case send_message lib resp s1 of
                  (Inl e, s2) \<Rightarrow> (Inl e, s2)
                | (Inr resp', s2) \<Rightarrow> (Inr (req, resp'), s2))))"

definition handle ::
  "smb_structs \<Rightarrow> clock \<Rightarrow> sock \<Rightarrow> (error + (message \<times> message) list) \<times> sock" where
  "handle lib clk s =
     (case exchange lib (handle_negotiate lib clk) s of
        (Inl e, s1) \<Rightarrow> (Inl e, s1)
      | (Inr x1, s1) \<Rightarrow>
     (case exchange lib (handle_session_setup lib) s1 of
        (Inl e, s2) \<Rightarrow> (Inl e, s2)
      | (Inr x2, s2) \<Rightarrow>
     (case exchange lib (handle_tree_connect lib) s2 of
        (Inl e, s3) \<Rightarrow> (Inl e, s3)
      | (Inr x3, s3) \<Rightarrow>
     (case exchange lib (handle_echo lib) s3 of
        (Inl e, s4) \<Rightarrow> (Inl e, s4)
      | (Inr x4, s4) \<Rightarrow> (Inr [x1, x2, x3, x4], s4)))))"

section \<open>An instance of the library\<close>

text \<open>
  To run the model on concrete messages the parameter \<open>lib\<close> needs a value. This one has
  the codes and bits of the SMB1 protocol and the message layout of section 6 of the
  spec: the signature, the command, the status, \<open>flags\<close>, \<open>flags2\<close>, the high half of
  the process id, the security and reserved bytes, the tree id, the low half of the
  process id, the user id, the multiplex id, the count of parameter words, the parameters,
  the count of data bytes and the data. The theorems below hold for every \<open>lib\<close>; the
  instance only serves to evaluate them.
\<close>

definition smb_signature :: bytes where
  "smb_signature = [0xFF, 0x53, 0x4D, 0x42]"

definition header_format :: format where
  "header_format =
     (LittleEndian, [U8, U32, U8, U16, U16, U64, Pad, Pad, U16, U16, U16, U16, U8])"

definition example_decode_header :: "bytes \<Rightarrow> error + message" where
  "example_decode_header buf =
     (if length buf < 33 then Inl (ProtocolError ''Not enough data to decode SMB header'')
      else if take 4 buf \<noteq> smb_signature then Inl (ProtocolError ''Invalid 4-byte protocol field'')
      else case struct_unpack header_format (take 29 (drop 4 buf)) of
             Inl e \<Rightarrow> Inl e
           | Inr vs \<Rightarrow>
        (case vs of
           [c, status, f, f2, pid_high, security, t, pid_low, u, i, params_count] \<Rightarrow>
             (let off = 33 + 2 * nat params_count
              in case struct_unpack (LittleEndian, [U16]) (take 2 (drop off buf)) of
                   Inl e \<Rightarrow> Inl (ProtocolError ''Not enough data. Parameters list decoding failed'')
                 | Inr ws \<Rightarrow>
                (case ws of
                   [body_len] \<Rightarrow>
                     if length buf < off + 2 + nat body_len
                     then Inl (ProtocolError ''Not enough data. Body decoding failed'')
                     else Inr \<lparr>command = c, flags = f, flags2 = f2,
                               pid = pid_high * 65536 + pid_low, tid = t, uid = u, mid = i,
                               parameters_data = take (2 * nat params_count) (drop 33 buf),
                               data = take (nat body_len) (drop (off + 2) buf),
                               raw_data = buf, payload = None\<rparr>
                 | _ \<Rightarrow> Inl ValueError))
         | _ \<Rightarrow> Inl ValueError))"

definition example_pack_message :: "message \<Rightarrow> error + bytes" where
  "example_pack_message m =
     (if length (parameters_data m) mod 2 \<noteq> 0 then Inl AssertionError
      else case struct_pack header_format
                  [command m, 0, flags m, flags2 m, (pid m div 65536) mod 65536, 0, tid m,
                   pid m mod 65536, uid m, mid m, int (length (parameters_data m) div 2)] of
             Inl e \<Rightarrow> Inl e
           | Inr h \<Rightarrow>
               (case struct_pack (LittleEndian, [U16]) [int (length (data m))] of
                  Inl e \<Rightarrow> Inl e
                | Inr n \<Rightarrow> Inr (smb_signature @ h @ parameters_data m @ n @ data m)))"

definition example_lib :: smb_structs where
  "example_lib =
     \<lparr>SMB_COM_READ_ANDX = 0x2E,
      SMB_COM_WRITE_ANDX = 0x2F,
      SMB_COM_TRANSACTION = 0x25,
      SMB_COM_TRANSACTION2 = 0x32,
      SMB_COM_OPEN_ANDX = 0x2D,
      SMB_COM_NT_CREATE_ANDX = 0xA2,
      SMB_COM_TREE_CONNECT_ANDX = 0x75,
      SMB_COM_ECHO = 0x2B,
      SMB_COM_SESSION_SETUP_ANDX = 0x73,
      SMB_COM_NEGOTIATE = 0x72,
      SMB_FLAGS_REPLY = 0x80,
      SMB_FLAGS2_EXTENDED_SECURITY = 0x0800,
      SMB_FLAGS2_UNICODE = 0x8000,
      CAP_UNICODE = 0x0004,
      CAP_LARGE_FILES = 0x0008,
      CAP_STATUS32 = 0x0040,
      SMB_TREE_CONNECTX_SUPPORT_SEARCH = 0x0001,
      HEADER_STRUCT_SIZE = 33,
      DEFAULT_ANDX_PARAM_SIZE = 4,
      DEFAULT_ANDX_PARAM_HEADER = [0xFF, 0, 0, 0],
      negotiate_response_format =
        (LittleEndian, [U16, U8, U16, U16, U32, U32, U32, U32, U64, U16, U8]),
      session_setup_request_format =
        (LittleEndian, [U16, U16, U16, U32, U16, U16, U32, U32]),
      tree_connect_request_format = (LittleEndian, [U16, U16]),
      tree_connect_request_size = 4,
      tree_connect_response_format = Some (LittleEndian, [U8, U8, U16, U16]),
      new_message =
        \<lparr>command = 0, flags = 0, flags2 = 0, pid = 0, tid = 0, uid = 0, mid = 0,
         parameters_data = [], data = [], raw_data = [], payload = None\<rparr>,
      Payload_initMessage = (\<lambda>p m. (0x18, 0xC807)),
      decode_header = example_decode_header,
      pack_message = example_pack_message,
      library_request = (\<lambda>c m. Inl (LibraryError ''TypeError'')),
      super_decodePayload =
        (\<lambda>m. Inr (Some \<lparr>lib_dialects = None, lib_capabilities = None, lib_domain = None,
                         lib_service = None, lib_echo_count = None, lib_echo_data = None\<rparr>)),
      library_initMessage = (\<lambda>p m. m),
      library_prepare = (\<lambda>p m. Inl (LibraryError ''NotImplementedError''))\<rparr>"

subsection \<open>Example messages\<close>

definition example_ids :: ids where
  "example_ids = \<lparr>kw_pid = 7, kw_tid = 3, kw_uid = 5, kw_mid = 9\<rparr>"

definition example_negotiate_bytes :: bytes where
  \<comment> \<open>a NEGOTIATE request offering the dialects LANMAN1.0 and NT LM 0.12\<close>
  "example_negotiate_bytes =
     [0xFF, 0x53, 0x4D, 0x42, 0x72, 0x00, 0x00, 0x00, 0x00, 0x18, 0x07, 0xC8, 0x00,
      0x00, 0x00, 0x00, 0x00, 0x00, 0x00, 0x00, 0x00, 0x00, 0x00, 0x00, 0x03, 0x00,
      0x07, 0x00, 0x05, 0x00, 0x09, 0x00, 0x00, 0x17, 0x00, 0x02, 0x4C, 0x41, 0x4E,
      0x4D, 0x41, 0x4E, 0x31, 0x2E, 0x30, 0x00, 0x02, 0x4E, 0x54, 0x20, 0x4C, 0x4D,
      0x20, 0x30, 0x2E, 0x31, 0x32, 0x00]"

definition example_negotiate_request :: message where
  "example_negotiate_request =
     \<lparr>command = 0x72, flags = 0x18, flags2 = 0xC807, pid = 7, tid = 3, uid = 5, mid = 9,
      parameters_data =
        [],
      data =
        [0x02, 0x4C, 0x41, 0x4E, 0x4D, 0x41, 0x4E, 0x31, 0x2E, 0x30, 0x00, 0x02, 0x4E,
        0x54, 0x20, 0x4C, 0x4D, 0x20, 0x30, 0x2E, 0x31, 0x32, 0x00],
      raw_data = example_negotiate_bytes,
      payload =
        Some (ComNegotiateRequest [py_str ''LANMAN1.0'', py_str ''NT LM 0.12''])\<rparr>"

definition example_session_setup_bytes :: bytes where
  \<comment> \<open>a SESSION_SETUP_ANDX request in unicode with the capabilities 0x44 and the strings
      \<open>A\<close> followed by U+0100, \<open>DOM\<close>, \<open>OS\<close> and \<open>LM\<close>; the bytes 63 and 64 are zero\<close>
  "example_session_setup_bytes =
     [0xFF, 0x53, 0x4D, 0x42, 0x73, 0x00, 0x00, 0x00, 0x00, 0x18, 0x07, 0xC8, 0x00,
      0x00, 0x00, 0x00, 0x00, 0x00, 0x00, 0x00, 0x00, 0x00, 0x00, 0x00, 0x03, 0x00,
      0x07, 0x00, 0x05, 0x00, 0x09, 0x00, 0x0D, 0xFF, 0x00, 0x00, 0x00, 0x04, 0x11,
      0x32, 0x00, 0x01, 0x00, 0x00, 0x00, 0x00, 0x00, 0x01, 0x00, 0x00, 0x00, 0x00,
      0x00, 0x00, 0x00, 0x44, 0x00, 0x00, 0x00, 0x1B, 0x00, 0x00, 0x41, 0x00, 0x00,
      0x01, 0x00, 0x00, 0x44, 0x00, 0x4F, 0x00, 0x4D, 0x00, 0x00, 0x00, 0x4F, 0x00,
      0x53, 0x00, 0x00, 0x00, 0x4C, 0x00, 0x4D, 0x00, 0x00, 0x00]"

definition example_session_setup_request :: message where
  "example_session_setup_request =
     \<lparr>command = 0x73, flags = 0x18, flags2 = 0xC807, pid = 7, tid = 3, uid = 5, mid = 9,
      parameters_data =
        [0xFF, 0x00, 0x00, 0x00, 0x04, 0x11, 0x32, 0x00, 0x01, 0x00, 0x00, 0x00, 0x00,
        0x00, 0x01, 0x00, 0x00, 0x00, 0x00, 0x00, 0x00, 0x00, 0x44, 0x00, 0x00, 0x00],
      data =
        [0x00, 0x41, 0x00, 0x00, 0x01, 0x00, 0x00, 0x44, 0x00, 0x4F, 0x00, 0x4D, 0x00,
        0x00, 0x00, 0x4F, 0x00, 0x53, 0x00, 0x00, 0x00, 0x4C, 0x00, 0x4D, 0x00, 0x00,
        0x00],
      raw_data = example_session_setup_bytes,
      payload =
        Some (ComSessionSetupAndxRequest
          \<lparr>req_max_buffer_size = 4356, req_max_mpx_count = 50, req_vc_number = 1,
           req_session_key = 0, req_capabilities = 0x44, req_password = [],
           req_username = [0x41, 0x100], req_domain = py_str ''DOM'',
           req_native_os = py_str ''OS'', req_native_lan_man = py_str ''LM''\<rparr>)\<rparr>"

definition example_tree_connect_bytes :: bytes where
  \<comment> \<open>a TREE_CONNECT_ANDX request for the path \<open>\\\\h\\s\<close> and the service \<open>?????\<close>; the bytes 10
      and 11 of its data are zero\<close>
  "example_tree_connect_bytes =
     [0xFF, 0x53, 0x4D, 0x42, 0x75, 0x00, 0x00, 0x00, 0x00, 0x18, 0x07, 0xC8, 0x00,
      0x00, 0x00, 0x00, 0x00, 0x00, 0x00, 0x00, 0x00, 0x00, 0x00, 0x00, 0x03, 0x00,
      0x07, 0x00, 0x05, 0x00, 0x09, 0x00, 0x04, 0xFF, 0x00, 0x00, 0x00, 0x00, 0x00,
      0x01, 0x00, 0x13, 0x00, 0x00, 0x5C, 0x00, 0x5C, 0x00, 0x68, 0x00, 0x5C, 0x00,
      0x73, 0x00, 0x00, 0x00, 0x3F, 0x3F, 0x3F, 0x3F, 0x3F, 0x00]"

definition example_tree_connect_request :: message where
  "example_tree_connect_request =
     \<lparr>command = 0x75, flags = 0x18, flags2 = 0xC807, pid = 7, tid = 3, uid = 5, mid = 9,
      parameters_data =
        [0xFF, 0x00, 0x00, 0x00, 0x00, 0x00, 0x01, 0x00],
      data =
        [0x00, 0x5C, 0x00, 0x5C, 0x00, 0x68, 0x00, 0x5C, 0x00, 0x73, 0x00, 0x00, 0x00,
        0x3F, 0x3F, 0x3F, 0x3F, 0x3F, 0x00],
      raw_data = example_tree_connect_bytes,
      payload =
        Some (ComTreeConnectAndxRequest
          \<lparr>req_tree_password = [], req_path = [0x5C, 0x5C, 0x68, 0x5C, 0x73],
           req_service = py_str ''?????''\<rparr>)\<rparr>"

definition example_echo_bytes :: bytes where
  \<comment> \<open>an ECHO request with the echo count 1 and the data \<open>ping\<close>\<close>
  "example_echo_bytes =
     [0xFF, 0x53, 0x4D, 0x42, 0x2B, 0x00, 0x00, 0x00, 0x00, 0x18, 0x07, 0xC8, 0x00,
      0x00, 0x00, 0x00, 0x00, 0x00, 0x00, 0x00, 0x00, 0x00, 0x00, 0x00, 0x03, 0x00,
      0x07, 0x00, 0x05, 0x00, 0x09, 0x00, 0x01, 0x01, 0x00, 0x04, 0x00, 0x70, 0x69,
      0x6E, 0x67]"

definition example_echo_request :: message where
  "example_echo_request =
     \<lparr>command = 0x2B, flags = 0x18, flags2 = 0xC807, pid = 7, tid = 3, uid = 5, mid = 9,
      parameters_data =
        [0x01, 0x00],
      data =
        [0x70, 0x69, 0x6E, 0x67],
      raw_data = example_echo_bytes,
      payload =
        Some (ComEchoRequest 1 (py_bytes ''ping''))\<rparr>"

definition example_chained_request :: message where
  \<comment> \<open>the SESSION_SETUP_ANDX request with an extension header that chains a command\<close>
  "example_chained_request =
     example_session_setup_request
       \<lparr>parameters_data := [0x75, 0x00, 0x00, 0x3C] @ drop 4 (parameters_data example_session_setup_request)\<rparr>"

definition example_clock :: clock where
  "example_clock = \<lparr>int_ts = 1700000000, utc_offset = 0\<rparr>"

definition example_lanman_bytes :: bytes where
  \<comment> \<open>a NEGOTIATE request that offers LANMAN1.0 only\<close>
  "example_lanman_bytes =
     [0xFF, 0x53, 0x4D, 0x42, 0x72, 0x00, 0x00, 0x00, 0x00, 0x18, 0x07, 0xC8, 0x00,
      0x00, 0x00, 0x00, 0x00, 0x00, 0x00, 0x00, 0x00, 0x00, 0x00, 0x00, 0x03, 0x00,
      0x07, 0x00, 0x05, 0x00, 0x09, 0x00, 0x00, 0x0B, 0x00, 0x02, 0x4C, 0x41, 0x4E,
      0x4D, 0x41, 0x4E, 0x31, 0x2E, 0x30, 0x00]"

definition example_lanman_request :: message where
  "example_lanman_request =
     \<lparr>command = 0x72, flags = 0x18, flags2 = 0xC807, pid = 7, tid = 3, uid = 5, mid = 9,
      parameters_data = [],
      data = [0x02, 0x4C, 0x41, 0x4E, 0x4D, 0x41, 0x4E, 0x31, 0x2E, 0x30, 0x00],
      raw_data = example_lanman_bytes,
      payload = Some (ComNegotiateRequest [py_str ''LANMAN1.0''])\<rparr>"

definition example_lanman_sock :: sock where
  \<comment> \<open>the frame of that request, delivered in three segments\<close>
  "example_lanman_sock =
     \<lparr>incoming = [[0, 0, 0, 46], take 10 example_lanman_bytes, drop 10 example_lanman_bytes],
      sent = []\<rparr>"

definition example_echo_sock :: sock where
  \<comment> \<open>the frame of the ECHO request, in one segment\<close>
  "example_echo_sock = \<lparr>incoming = [[0, 0, 0, 41] @ example_echo_bytes], sent = []\<rparr>"

definition example_echo_reply_bytes :: bytes where
  \<comment> \<open>the ECHO response to it: sequence number 0 and the data \<open>ping\<close>\<close>
  "example_echo_reply_bytes =
     [0xFF, 0x53, 0x4D, 0x42, 0x2B, 0x00, 0x00, 0x00, 0x00, 0x98, 0x07, 0xC0, 0x00,
      0x00, 0x00, 0x00, 0x00, 0x00, 0x00, 0x00, 0x00, 0x00, 0x00, 0x00, 0x03, 0x00,
      0x07, 0x00, 0x05, 0x00, 0x09, 0x00, 0x01, 0x00, 0x00, 0x04, 0x00, 0x70, 0x69,
      0x6E, 0x67]"

definition example_echo2_bytes :: bytes where
  \<comment> \<open>an ECHO request with the echo count 2\<close>
  "example_echo2_bytes =
     [0xFF, 0x53, 0x4D, 0x42, 0x2B, 0x00, 0x00, 0x00, 0x00, 0x18, 0x07, 0xC8, 0x00,
      0x00, 0x00, 0x00, 0x00, 0x00, 0x00, 0x00, 0x00, 0x00, 0x00, 0x00, 0x03, 0x00,
      0x07, 0x00, 0x05, 0x00, 0x09, 0x00, 0x01, 0x02, 0x00, 0x04, 0x00, 0x70, 0x69,
      0x6E, 0x67]"

definition example_echo2_request :: message where
  "example_echo2_request =
     \<lparr>command = 0x2B, flags = 0x18, flags2 = 0xC807, pid = 7, tid = 3, uid = 5, mid = 9,
      parameters_data = [0x02, 0x00], data = [0x70, 0x69, 0x6E, 0x67],
      raw_data = example_echo2_bytes,
      payload = Some (ComEchoRequest 2 (py_bytes ''ping''))\<rparr>"

definition example_echo2_sock :: sock where
  "example_echo2_sock = \<lparr>incoming = [[0, 0, 0, 41] @ example_echo2_bytes], sent = []\<rparr>"

definition example_overcap_bytes :: bytes where
  \<comment> \<open>the SESSION_SETUP_ANDX request with the capabilities 0x1044: bit 12 is not offered\<close>
  "example_overcap_bytes =
     [0xFF, 0x53, 0x4D, 0x42, 0x73, 0x00, 0x00, 0x00, 0x00, 0x18, 0x07, 0xC8, 0x00,
      0x00, 0x00, 0x00, 0x00, 0x00, 0x00, 0x00, 0x00, 0x00, 0x00, 0x00, 0x03, 0x00,
      0x07, 0x00, 0x05, 0x00, 0x09, 0x00, 0x0D, 0xFF, 0x00, 0x00, 0x00, 0x04, 0x11,
      0x32, 0x00, 0x01, 0x00, 0x00, 0x00, 0x00, 0x00, 0x01, 0x00, 0x00, 0x00, 0x00,
      0x00, 0x00, 0x00, 0x44, 0x10, 0x00, 0x00, 0x1B, 0x00, 0x00, 0x41, 0x00, 0x00,
      0x01, 0x00, 0x00, 0x44, 0x00, 0x4F, 0x00, 0x4D, 0x00, 0x00, 0x00, 0x4F, 0x00,
      0x53, 0x00, 0x00, 0x00, 0x4C, 0x00, 0x4D, 0x00, 0x00, 0x00]"

definition example_overcap_request :: message where
  "example_overcap_request =
     \<lparr>command = 0x73, flags = 0x18, flags2 = 0xC807, pid = 7, tid = 3, uid = 5, mid = 9,
      parameters_data =
        [0xFF, 0x00, 0x00, 0x00, 0x04, 0x11, 0x32, 0x00, 0x01, 0x00, 0x00, 0x00, 0x00,
         0x00, 0x01, 0x00, 0x00, 0x00, 0x00, 0x00, 0x00, 0x00, 0x44, 0x10, 0x00, 0x00],
      data =
        [0x00, 0x41, 0x00, 0x00, 0x01, 0x00, 0x00, 0x44, 0x00, 0x4F, 0x00, 0x4D, 0x00,
         0x00, 0x00, 0x4F, 0x00, 0x53, 0x00, 0x00, 0x00, 0x4C, 0x00, 0x4D, 0x00, 0x00,
         0x00],
      raw_data = example_overcap_bytes,
      payload =
        Some (ComSessionSetupAndxRequest
          \<lparr>req_max_buffer_size = 4356, req_max_mpx_count = 50, req_vc_number = 1,
           req_session_key = 0, req_capabilities = 0x1044, req_password = [],
           req_username = [0x41, 0x100], req_domain = py_str ''DOM'',
           req_native_os = py_str ''OS'', req_native_lan_man = py_str ''LM''\<rparr>)\<rparr>"

definition example_overcap_sock :: sock where
  "example_overcap_sock =
     \<lparr>incoming = [[0, 0, 0, 88], example_overcap_bytes], sent = []\<rparr>"

definition example_session_setup_sock :: sock where
  \<comment> \<open>the frame of the SESSION_SETUP_ANDX request, in two segments\<close>
  "example_session_setup_sock =
     \<lparr>incoming = [[0, 0, 0, 88] @ take 40 example_session_setup_bytes,
                  drop 40 example_session_setup_bytes], sent = []\<rparr>"

definition example_session_setup_reply_bytes :: bytes where
  \<comment> \<open>the response to it: action 1, then \<open>Unix\<close>, \<open>DropboxFS\<close> and \<open>DOM\<close>\<close>
  "example_session_setup_reply_bytes =
     [0xFF, 0x53, 0x4D, 0x42, 0x73, 0x00, 0x00, 0x00, 0x00, 0x98, 0x07, 0xC0, 0x00,
      0x00, 0x00, 0x00, 0x00, 0x00, 0x00, 0x00, 0x00, 0x00, 0x00, 0x00, 0x03, 0x00,
      0x07, 0x00, 0x05, 0x00, 0x09, 0x00, 0x04, 0xFF, 0x00, 0x00, 0x00, 0x01, 0x00,
      0x00, 0x00, 0x27, 0x00, 0x00, 0x55, 0x00, 0x6E, 0x00, 0x69, 0x00, 0x78, 0x00,
      0x00, 0x00, 0x44, 0x00, 0x72, 0x00, 0x6F, 0x00, 0x70, 0x00, 0x62, 0x00, 0x6F,
      0x00, 0x78, 0x00, 0x46, 0x00, 0x53, 0x00, 0x00, 0x00, 0x44, 0x00, 0x4F, 0x00,
      0x4D, 0x00, 0x00, 0x00]"

definition example_session_setup_reply :: message where
  "example_session_setup_reply =
     \<lparr>command = 0x73, flags = 0x98, flags2 = 0xC007, pid = 7, tid = 3, uid = 5, mid = 9,
      parameters_data = [0xFF, 0x00, 0x00, 0x00, 0x01, 0x00, 0x00, 0x00],
      data =
        [0x00, 0x55, 0x00, 0x6E, 0x00, 0x69, 0x00, 0x78, 0x00, 0x00, 0x00, 0x44, 0x00,
         0x72, 0x00, 0x6F, 0x00, 0x70, 0x00, 0x62, 0x00, 0x6F, 0x00, 0x78, 0x00, 0x46,
         0x00, 0x53, 0x00, 0x00, 0x00, 0x44, 0x00, 0x4F, 0x00, 0x4D, 0x00, 0x00, 0x00],
      raw_data = [],
      payload = Some (ComSessionSetupAndxResponse (Some example_ids) 1 (py_str ''DOM''))\<rparr>"

definition example_reply_request :: message where
  \<comment> \<open>the SESSION_SETUP_ANDX response of the example, read back as an incoming message: its
      reply flag is set, so its payload is an object of the library\<close>
  "example_reply_request =
     \<lparr>command = 0x73, flags = 0x98, flags2 = 0xC007, pid = 7, tid = 3, uid = 5, mid = 9,
      parameters_data = [0xFF, 0x00, 0x00, 0x00, 0x01, 0x00, 0x00, 0x00],
      data =
        [0x00, 0x55, 0x00, 0x6E, 0x00, 0x69, 0x00, 0x78, 0x00, 0x00, 0x00, 0x44, 0x00,
         0x72, 0x00, 0x6F, 0x00, 0x70, 0x00, 0x62, 0x00, 0x6F, 0x00, 0x78, 0x00, 0x46,
         0x00, 0x53, 0x00, 0x00, 0x00, 0x44, 0x00, 0x4F, 0x00, 0x4D, 0x00, 0x00, 0x00],
      raw_data = example_session_setup_reply_bytes,
      payload =
        Some (LibraryPayload
          \<lparr>lib_dialects = None, lib_capabilities = None, lib_domain = None,
           lib_service = None, lib_echo_count = None, lib_echo_data = None\<rparr>)\<rparr>"

definition example_reply_sock :: sock where
  \<comment> \<open>the frame of that message\<close>
  "example_reply_sock =
     \<lparr>incoming = [[0, 0, 0, 82], example_session_setup_reply_bytes], sent = []\<rparr>"

definition example_negotiate_sock :: sock where
  \<comment> \<open>the frame of the NEGOTIATE request, in one segment\<close>
  "example_negotiate_sock = \<lparr>incoming = [[0, 0, 0, 58] @ example_negotiate_bytes], sent = []\<rparr>"

definition example_negotiate_reply_bytes :: bytes where
  \<comment> \<open>the NEGOTIATE response as the handler sends it: the four ids are zero\<close>
  "example_negotiate_reply_bytes =
     [0xFF, 0x53, 0x4D, 0x42, 0x72, 0x00, 0x00, 0x00, 0x00, 0x98, 0x07, 0xC0, 0x00,
      0x00, 0x00, 0x00, 0x00, 0x00, 0x00, 0x00, 0x00, 0x00, 0x00, 0x00, 0x00, 0x00,
      0x00, 0x00, 0x00, 0x00, 0x00, 0x00, 0x11, 0x01, 0x00, 0x00, 0xFF, 0xFF, 0xFF,
      0xFF, 0xFF, 0xFF, 0x00, 0x00, 0xFF, 0xFF, 0x00, 0x00, 0x00, 0x00, 0x00, 0x00,
      0x4C, 0x00, 0x00, 0x00, 0x00, 0x00, 0x6D, 0xC6, 0x47, 0x17, 0xDA, 0x01, 0x00,
      0x00, 0x00, 0x00, 0x00]"

definition example_negotiate_reply :: message where
  "example_negotiate_reply =
     \<lparr>command = 0x72, flags = 0x98, flags2 = 0xC007, pid = 0, tid = 0, uid = 0, mid = 0,
      parameters_data =
        [0x01, 0x00, 0x00, 0xFF, 0xFF, 0xFF, 0xFF, 0xFF, 0xFF, 0x00, 0x00, 0xFF, 0xFF,
         0x00, 0x00, 0x00, 0x00, 0x00, 0x00, 0x4C, 0x00, 0x00, 0x00, 0x00, 0x00, 0x6D,
         0xC6, 0x47, 0x17, 0xDA, 0x01, 0x00, 0x00, 0x00],
      data = [],
      raw_data = example_negotiate_reply_bytes,
      payload =
        Some (ComNegotiateResponse None
          \<lparr>dialect_index = 1, security_mode = 0, max_mpx_count = 65535,
           max_number_vcs = 65535, max_buffer_size = 65535, max_raw_size = 65535,
           session_key = 0, capabilities = 0x4C, system_time = 133444736000000000,
           server_time_zone = 0, challenge_length = 0\<rparr>)\<rparr>"

definition example_tree_connect_sock :: sock where
  \<comment> \<open>the frame of the TREE_CONNECT_ANDX request, in one segment\<close>
  "example_tree_connect_sock =
     \<lparr>incoming = [[0, 0, 0, 62] @ example_tree_connect_bytes], sent = []\<rparr>"

definition example_tree_connect_reply_bytes :: bytes where
  \<comment> \<open>the TREE_CONNECT_ANDX response as the handler sends it: no parameter word, no data\<close>
  "example_tree_connect_reply_bytes =
     [0xFF, 0x53, 0x4D, 0x42, 0x75, 0x00, 0x00, 0x00, 0x00, 0x98, 0x07, 0xC0, 0x00,
      0x00, 0x00, 0x00, 0x00, 0x00, 0x00, 0x00, 0x00, 0x00, 0x00, 0x00, 0x03, 0x00,
      0x07, 0x00, 0x05, 0x00, 0x09, 0x00, 0x00, 0x00, 0x00]"

definition example_tree_connect_reply :: message where
  "example_tree_connect_reply =
     \<lparr>command = 0x75, flags = 0x98, flags2 = 0xC007, pid = 7, tid = 3, uid = 5, mid = 9,
      parameters_data = [], data = [],
      raw_data = example_tree_connect_reply_bytes,
      payload =
        Some (ComTreeConnectAndxResponse (Some example_ids)
          \<lparr>optional_support = 1, service = py_str ''A:'', native_file_system = py_str ''FAT'',
           self_parameters_data = Some [0xFF, 0x00, 0x00, 0x00, 0x01, 0x00],
           self_data = Some [0x41, 0x3A, 0x00]\<rparr>)\<rparr>"

definition example_long_domain_bytes :: bytes where
  \<comment> \<open>a SESSION_SETUP_ANDX request without the unicode flag: capabilities 0x44, the user
      \<open>ab\<close>, a domain of 32769 letters \<open>A\<close>, then \<open>X\<close> and \<open>Y\<close>\<close>
  "example_long_domain_bytes =
     [0xFF, 0x53, 0x4D, 0x42, 0x73, 0x00, 0x00, 0x00, 0x00, 0x18, 0x07, 0x40, 0x00,
      0x00, 0x00, 0x00, 0x00, 0x00, 0x00, 0x00, 0x00, 0x00, 0x00, 0x00, 0x03, 0x00,
      0x07, 0x00, 0x05, 0x00, 0x09, 0x00, 0x0D, 0xFF, 0x00, 0x00, 0x00, 0x04, 0x11,
      0x32, 0x00, 0x01, 0x00, 0x00, 0x00, 0x00, 0x00, 0x01, 0x00, 0x00, 0x00, 0x00,
      0x00, 0x00, 0x00, 0x44, 0x00, 0x00, 0x00, 0x0A, 0x80, 0x00, 0x61, 0x62, 0x00]
     @ replicate 32769 0x41 @ [0x00, 0x58, 0x00, 0x59, 0x00]"

definition example_long_domain_request :: message where
  \<comment> \<open>that request as \<open>decode_smb_message\<close> returns it\<close>
  "example_long_domain_request =
     \<lparr>command = 0x73, flags = 0x18, flags2 = 0x4007, pid = 7, tid = 3, uid = 5, mid = 9,
      parameters_data =
        [0xFF, 0x00, 0x00, 0x00, 0x04, 0x11, 0x32, 0x00, 0x01, 0x00, 0x00, 0x00, 0x00,
         0x00, 0x01, 0x00, 0x00, 0x00, 0x00, 0x00, 0x00, 0x00, 0x44, 0x00, 0x00, 0x00],
      data = [0x00, 0x61, 0x62, 0x00] @ replicate 32769 0x41 @ [0x00, 0x58, 0x00, 0x59, 0x00],
      raw_data = example_long_domain_bytes,
      payload =
        Some (ComSessionSetupAndxRequest
          \<lparr>req_max_buffer_size = 4356, req_max_mpx_count = 50, req_vc_number = 1,
           req_session_key = 0, req_capabilities = 0x44, req_password = [],
           req_username = py_str ''ab'', req_domain = replicate 32769 65,
           req_native_os = py_str ''X'', req_native_lan_man = py_str ''Y''\<rparr>)\<rparr>"

definition example_long_domain_sock :: sock where
  \<comment> \<open>the frame of that request: 32839 bytes after the prefix\<close>
  "example_long_domain_sock =
     \<lparr>incoming = [[0x00, 0x00, 0x80, 0x47], example_long_domain_bytes], sent = []\<rparr>"

definition example_malformed_bytes :: bytes where
  \<comment> \<open>a SESSION_SETUP_ANDX request in unicode whose data block ends before any terminator\<close>
  "example_malformed_bytes =
     [0xFF, 0x53, 0x4D, 0x42, 0x73, 0x00, 0x00, 0x00, 0x00, 0x18, 0x07, 0xC8, 0x00,
      0x00, 0x00, 0x00, 0x00, 0x00, 0x00, 0x00, 0x00, 0x00, 0x00, 0x00, 0x03, 0x00,
      0x07, 0x00, 0x05, 0x00, 0x09, 0x00, 0x0D, 0xFF, 0x00, 0x00, 0x00, 0x04, 0x11,
      0x32, 0x00, 0x01, 0x00, 0x00, 0x00, 0x00, 0x00, 0x01, 0x00, 0x00, 0x00, 0x00,
      0x00, 0x00, 0x00, 0x44, 0x00, 0x00, 0x00, 0x03, 0x00, 0x00, 0x41, 0x00]"

definition example_malformed_sock :: sock where
  \<comment> \<open>a connection whose first message is that request\<close>
  "example_malformed_sock =
     \<lparr>incoming = [[0, 0, 0, 64] @ example_malformed_bytes], sent = []\<rparr>"

definition example_echo_response :: message where
  "example_echo_response =
     SMBMessage_init example_lib (ComEchoResponse (Some example_ids) 0 (py_bytes ''ping''))"

section \<open>Properties\<close>

subsection \<open>Facts about responses\<close>

fun response_class :: "payload \<Rightarrow> bool" where
  \<comment> \<open>the payload classes of smbserver.py that define \<open>initMessage\<close> and \<open>prepare\<close>\<close>
  "response_class (ComNegotiateResponse kw a) = True"
| "response_class (ComSessionSetupAndxResponse kw action domain) = True"
| "response_class (ComTreeConnectAndxResponse kw r) = True"
| "response_class (ComEchoResponse kw sequence_number d) = True"
| "response_class (NullPayload kw c) = True"
| "response_class p = False"

lemma or_and_same: "(a OR b) AND b = (b::int)"
  by (simp add: bit_eq_iff bit_simps) blast

lemma and_not_and_same: "(a AND NOT b) AND b = (0::int)"
  by (simp add: bit_eq_iff bit_simps)

lemma init_reply_flags:
  "flags (init_reply lib p m c) AND SMB_FLAGS_REPLY lib = SMB_FLAGS_REPLY lib"
  "flags2 (init_reply lib p m c) AND SMB_FLAGS2_EXTENDED_SECURITY lib = 0"
  by (simp_all add: init_reply_def Let_def or_and_same and_not_and_same split: prod.splits)

lemma init_reply_fields:
  "tid (init_reply lib p m c) = getattr p kw_tid 0"
  "uid (init_reply lib p m c) = getattr p kw_uid 0"
  "mid (init_reply lib p m c) = getattr p kw_mid 0"
  "command (init_reply lib p m c) = c"
  "pid (init_reply lib p m c) = pid m"
  "payload (init_reply lib p m c) = payload m"
  "parameters_data (init_reply lib p m c) = parameters_data m"
  "data (init_reply lib p m c) = data m"
  by (simp_all add: init_reply_def Let_def split: prod.splits)

lemma SMBMessage_init_flags:
  assumes "response_class p"
  shows "flags (SMBMessage_init lib p) AND SMB_FLAGS_REPLY lib = SMB_FLAGS_REPLY lib"
    and "flags2 (SMBMessage_init lib p) AND SMB_FLAGS2_EXTENDED_SECURITY lib = 0"
  using assms by (cases p; simp add: SMBMessage_init_def init_reply_flags)+

lemma SMBMessage_init_fields:
  assumes "response_class p"
  shows "payload (SMBMessage_init lib p) = Some p"
    and "tid (SMBMessage_init lib p) = getattr p kw_tid 0"
    and "uid (SMBMessage_init lib p) = getattr p kw_uid 0"
    and "mid (SMBMessage_init lib p) = getattr p kw_mid 0"
    and "parameters_data (SMBMessage_init lib p) = parameters_data (new_message lib)"
    and "data (SMBMessage_init lib p) = data (new_message lib)"
  using assms by (cases p; simp add: SMBMessage_init_def init_reply_fields)+

lemma ComNegotiateResponse_prepare_keeps:
  assumes "ComNegotiateResponse_prepare lib kw a m = Inr m'"
  shows "flags m' = flags m \<and> flags2 m' = flags2 m \<and> command m' = command m
         \<and> tid m' = tid m \<and> uid m' = uid m \<and> mid m' = mid m
         \<and> pid m' = getattr (ComNegotiateResponse kw a) kw_pid 0"
  using assms
  by (auto simp: ComNegotiateResponse_prepare_def prepare_def Let_def split: sum.splits)

lemma ComSessionSetupAndxResponse_prepare_keeps:
  assumes "ComSessionSetupAndxResponse_prepare lib kw action domain m = Inr m'"
  shows "flags m' = flags m \<and> flags2 m' = flags2 m \<and> command m' = command m
         \<and> tid m' = tid m \<and> uid m' = uid m \<and> mid m' = mid m
         \<and> pid m' = getattr (ComSessionSetupAndxResponse kw action domain) kw_pid 0"
  using assms
  by (auto simp: ComSessionSetupAndxResponse_prepare_def prepare_def Let_def getattr_def
      split: sum.splits option.splits)

lemma ComTreeConnectAndxResponse_prepare_keeps:
  assumes "ComTreeConnectAndxResponse_prepare lib kw r m = Inr m'"
  shows "flags m' = flags m \<and> flags2 m' = flags2 m \<and> command m' = command m
         \<and> tid m' = tid m \<and> uid m' = uid m \<and> mid m' = mid m
         \<and> pid m' = getattr (ComTreeConnectAndxResponse kw r) kw_pid 0"
  using assms
  by (auto simp: ComTreeConnectAndxResponse_prepare_def prepare_def Let_def
      split: sum.splits option.splits)

lemma ComEchoResponse_prepare_keeps:
  assumes "ComEchoResponse_prepare kw n d m = Inr m'"
  shows "flags m' = flags m \<and> flags2 m' = flags2 m \<and> command m' = command m
         \<and> tid m' = tid m \<and> uid m' = uid m \<and> mid m' = mid m
         \<and> pid m' = getattr (ComEchoResponse kw n d) kw_pid 0"
  using assms
  by (auto simp: ComEchoResponse_prepare_def prepare_def Let_def split: sum.splits)

lemma payload_prepare_keeps:
  assumes "response_class p" and "payload_prepare lib p m = Inr m'"
  shows "flags m' = flags m \<and> flags2 m' = flags2 m \<and> command m' = command m
         \<and> tid m' = tid m \<and> uid m' = uid m \<and> mid m' = mid m \<and> pid m' = getattr p kw_pid 0"
proof (cases p)
  case (ComNegotiateResponse kw a)
  with assms ComNegotiateResponse_prepare_keeps show ?thesis by simp
next
  case (ComSessionSetupAndxResponse kw action domain)
  with assms ComSessionSetupAndxResponse_prepare_keeps show ?thesis by simp
next
  case (ComTreeConnectAndxResponse kw r)
  with assms ComTreeConnectAndxResponse_prepare_keeps show ?thesis by simp
next
  case (ComEchoResponse kw n d)
  with assms ComEchoResponse_prepare_keeps show ?thesis by simp
next
  case (NullPayload kw c)
  with assms show ?thesis by (auto simp: prepare_def)
qed (use assms in simp_all)

lemma send_message_result:
  assumes "send_message lib msg s = (Inr resp, s')"
  shows "\<exists>p m' raw n. payload msg = Some p \<and> payload_prepare lib p msg = Inr m'
           \<and> pack_message lib m' = Inr raw \<and> resp = m'\<lparr>raw_data := raw\<rparr>
           \<and> struct_pack (BigEndian, [U32]) [int (length raw)] = Inr n
           \<and> s' = sock_sendall s (n @ raw)"
proof -
  from assms obtain m' raw where enc: "SMBMessage_encode lib msg = Inr (m', raw)"
    by (auto simp: send_message_def split: sum.splits)
  with assms obtain n where n: "struct_pack (BigEndian, [U32]) [int (length raw)] = Inr n"
    and r: "resp = m'\<lparr>raw_data := raw\<rparr>" "s' = sock_sendall s (n @ raw)"
    by (auto simp: send_message_def split: sum.splits)
  from enc obtain p where "payload msg = Some p" "payload_prepare lib p msg = Inr m'"
    "pack_message lib m' = Inr raw"
    by (auto simp: SMBMessage_encode_def split: sum.splits option.splits)
  with n r show ?thesis by blast
qed

lemma handle_negotiate_Inr:
  assumes "handle_negotiate lib clk req = Inr resp"
  shows "\<exists>a. resp = SMBMessage_init lib (ComNegotiateResponse None a)"
  using assms by (auto simp: handle_negotiate_def Let_def split: if_splits sum.splits)

lemma handle_session_setup_Inr:
  assumes "handle_session_setup lib req = Inr resp"
  shows "\<exists>d. resp = SMBMessage_init lib
           (ComSessionSetupAndxResponse (Some (response_args_from_req req)) 1 d)"
  using assms by (auto simp: handle_session_setup_def split: if_splits sum.splits)

lemma handle_tree_connect_Inr:
  assumes "handle_tree_connect lib req = Inr resp"
  shows "\<exists>r. resp = SMBMessage_init lib
           (ComTreeConnectAndxResponse (Some (response_args_from_req req)) r)"
  using assms by (auto simp: handle_tree_connect_def split: if_splits sum.splits)

lemma handle_echo_Inr:
  assumes "handle_echo lib req = Inr resp"
  shows "\<exists>d. resp = SMBMessage_init lib (ComEchoResponse (Some (response_args_from_req req)) 0 d)"
  using assms by (auto simp: handle_echo_def split: if_splits sum.splits)

lemma handle_responses:
  assumes "handle_negotiate lib clk req = Inr resp \<or> handle_session_setup lib req = Inr resp
         \<or> handle_tree_connect lib req = Inr resp \<or> handle_echo lib req = Inr resp"
  shows "\<exists>p. response_class p \<and> resp = SMBMessage_init lib p"
proof -
  from assms consider "handle_negotiate lib clk req = Inr resp"
    | "handle_session_setup lib req = Inr resp"
    | "handle_tree_connect lib req = Inr resp"
    | "handle_echo lib req = Inr resp" by blast
  then show ?thesis
  proof cases
    case 1
    from handle_negotiate_Inr [OF this] obtain a
      where "resp = SMBMessage_init lib (ComNegotiateResponse None a)" ..
    moreover have "response_class (ComNegotiateResponse None a)" by simp
    ultimately show ?thesis by blast
  next
    case 2
    from handle_session_setup_Inr [OF this] obtain d
      where "resp = SMBMessage_init lib
               (ComSessionSetupAndxResponse (Some (response_args_from_req req)) 1 d)" ..
    moreover have "response_class
      (ComSessionSetupAndxResponse (Some (response_args_from_req req)) 1 d)" by simp
    ultimately show ?thesis by blast
  next
    case 3
    from handle_tree_connect_Inr [OF this] obtain r
      where "resp = SMBMessage_init lib
               (ComTreeConnectAndxResponse (Some (response_args_from_req req)) r)" ..
    moreover have "response_class
      (ComTreeConnectAndxResponse (Some (response_args_from_req req)) r)" by simp
    ultimately show ?thesis by blast
  next
    case 4
    from handle_echo_Inr [OF this] obtain d
      where "resp = SMBMessage_init lib
               (ComEchoResponse (Some (response_args_from_req req)) 0 d)" ..
    moreover have "response_class (ComEchoResponse (Some (response_args_from_req req)) 0 d)"
      by simp
    ultimately show ?thesis by blast
  qed
qed

lemmas example_defs =
  example_lib_def example_ids_def example_echo_request_def example_echo_response_def
  response_args_from_req_def

lemmas decode_defs =
  decode_smb_message_def example_decode_header_def smb_signature_def header_format_def
  struct_unpack_def calcsize_def field_value_def py_str_def py_bytes_def decodePayload_def
  isReply_def with_payload_def andx_check_def py_slice_to_def py_slice_from_def py_slice_def
  slice_index_def Let_def decode_ascii_def rstrip_def lstrip_def bytes_index_def
  search_start_def elt_def

lemma example_negotiate_decoded:
  "decode_smb_message example_lib example_negotiate_bytes = Inr example_negotiate_request"
  by (simp add: example_lib_def example_negotiate_bytes_def example_negotiate_request_def
      ComNegotiateRequest_decode_def decode_defs)

lemma example_session_setup_decoded:
  "decode_smb_message example_lib example_session_setup_bytes = Inr example_session_setup_request"
  by (simp add: example_lib_def example_session_setup_bytes_def example_session_setup_request_def
      ComSessionSetupAndxRequest_decode_def read_padding_def decode_utf16le_def decode_defs)

lemma example_tree_connect_decoded:
  "decode_smb_message example_lib example_tree_connect_bytes = Inr example_tree_connect_request"
  by (simp add: example_lib_def example_tree_connect_bytes_def example_tree_connect_request_def
      ComTreeConnectAndxRequest_decode_def read_share_padding_def decode_utf16le_def
      decode_utf8_def py_getitem_def decode_defs)

lemma example_echo_decoded:
  "decode_smb_message example_lib example_echo_bytes = Inr example_echo_request"
  by (simp add: example_lib_def example_echo_bytes_def example_echo_request_def
      ComEchoRequest_decode_def decode_defs)

subsection \<open>C10: the reply flag and the extended-security bit of a response\<close>

text \<open>
  C10. Every response that the handler builds, to whatever request and in whichever of the
  four steps, has all bits of \<open>SMB_FLAGS_REPLY\<close> set in \<open>flags\<close> and all bits of
  \<open>SMB_FLAGS2_EXTENDED_SECURITY\<close> cleared in \<open>flags2\<close>, and so has the message that
  \<open>send_message\<close> sends for it. Nothing is assumed of the request, so its own \<open>flags\<close> and
  \<open>flags2\<close> play no part.
\<close>

theorem response_flags:
  assumes "handle_negotiate lib clk req = Inr resp \<or> handle_session_setup lib req = Inr resp
         \<or> handle_tree_connect lib req = Inr resp \<or> handle_echo lib req = Inr resp"
  shows "flags resp AND SMB_FLAGS_REPLY lib = SMB_FLAGS_REPLY lib
       \<and> flags2 resp AND SMB_FLAGS2_EXTENDED_SECURITY lib = 0
       \<and> (\<forall>s out s'. send_message lib resp s = (Inr out, s') \<longrightarrow>
             flags out AND SMB_FLAGS_REPLY lib = SMB_FLAGS_REPLY lib
           \<and> flags2 out AND SMB_FLAGS2_EXTENDED_SECURITY lib = 0)"
proof -
  from handle_responses [OF assms] obtain p where
    p: "response_class p" and resp: "resp = SMBMessage_init lib p" by blast
  have a: "flags resp AND SMB_FLAGS_REPLY lib = SMB_FLAGS_REPLY lib"
    and b: "flags2 resp AND SMB_FLAGS2_EXTENDED_SECURITY lib = 0"
    using SMBMessage_init_flags [OF p] resp by simp_all
  have c: "flags out = flags resp \<and> flags2 out = flags2 resp"
    if "send_message lib resp s = (Inr out, s')" for s out s'
  proof -
    from send_message_result [OF that] obtain q m' raw where
      q: "payload resp = Some q" and pr: "payload_prepare lib q resp = Inr m'"
      and out: "out = m'\<lparr>raw_data := raw\<rparr>" by blast
    from q resp SMBMessage_init_fields(1) [OF p] have "q = p" by simp
    with payload_prepare_keeps [OF p] pr out show ?thesis by simp
  qed
  from a b c show ?thesis by simp
qed

theorem response_flags_witness:
  "handle_echo example_lib example_echo_request = Inr example_echo_response
   \<and> flags2 example_echo_request AND SMB_FLAGS2_EXTENDED_SECURITY example_lib = 0x0800
   \<and> flags example_echo_response AND SMB_FLAGS_REPLY example_lib = SMB_FLAGS_REPLY example_lib
   \<and> flags2 example_echo_response AND SMB_FLAGS2_EXTENDED_SECURITY example_lib = 0"
proof -
  have h: "handle_echo example_lib example_echo_request = Inr example_echo_response"
    by (simp add: handle_echo_def example_defs)
  have r: "flags2 example_echo_request AND SMB_FLAGS2_EXTENDED_SECURITY example_lib = 0x0800"
    by (simp add: example_defs)
  from response_flags [where lib = example_lib and req = example_echo_request
      and resp = example_echo_response, OF disjI2 [OF disjI2 [OF disjI2 [OF h]]]] h r
  show ?thesis by blast
qed

subsection \<open>C8: the extension header must be terminal\<close>

lemma andx_check_Inr:
  assumes "andx_check lib m = Inr u"
  shows "\<exists>andx_reserved.
           struct_unpack (BigEndian, [U8, U8, U16])
             (py_slice_to (parameters_data m) (DEFAULT_ANDX_PARAM_SIZE lib))
           = Inr [0xFF, andx_reserved, 0]"
  using assms
  by (auto simp: andx_check_def Let_def split: sum.splits list.splits if_splits)

lemma andx_check_Inl:
  assumes "struct_unpack (BigEndian, [U8, U8, U16])
             (py_slice_to (parameters_data m) (DEFAULT_ANDX_PARAM_SIZE lib))
           = Inr [andx_command, andx_reserved, andx_offset]"
    and "\<not> (andx_command = 0xFF \<and> andx_offset = 0)"
  shows "andx_check lib m = Inl non_terminal_andx"
  using assms by (auto simp: andx_check_def Let_def)

lemma andx_check_unpack_error:
  assumes "struct_unpack (BigEndian, [U8, U8, U16])
             (py_slice_to (parameters_data m) (DEFAULT_ANDX_PARAM_SIZE lib)) = Inl e"
  shows "andx_check lib m = Inl e"
  using assms by (simp add: andx_check_def Let_def)

lemma decode_andx_check_error:
  assumes "andx_check lib m = Inl e"
  shows "ComSessionSetupAndxRequest_decode lib m = Inl e"
    and "ComTreeConnectAndxRequest_decode lib m = Inl e"
  using assms
  by (simp_all add: ComSessionSetupAndxRequest_decode_def ComTreeConnectAndxRequest_decode_def)

lemma decode_andx_check_ok:
  assumes "ComSessionSetupAndxRequest_decode lib m = Inr p
         \<or> ComTreeConnectAndxRequest_decode lib m = Inr p"
  shows "andx_check lib m = Inr ()"
proof (cases "andx_check lib m")
  case (Inl e)
  from decode_andx_check_error [OF this] assms show ?thesis by simp
next
  case (Inr u)
  then show ?thesis by simp
qed

text \<open>
  C8. Both \<open>ComSessionSetupAndxRequest.decode\<close> and \<open>ComTreeConnectAndxRequest.decode\<close>
  start by unpacking the first \<open>DEFAULT_ANDX_PARAM_SIZE\<close> bytes of the parameters block as
  the extension header (command, reserved byte, offset), which must be four bytes. A decode
  that succeeds has found the terminal form, command 0xFF and offset 0; for every other
  pair of command and offset both decodes raise the exception of the non-terminal header,
  whatever else the message holds; and when the header cannot be unpacked both raise the
  error of \<open>struct.unpack\<close>.
\<close>

theorem andx_terminal_form_required:
  "(ComSessionSetupAndxRequest_decode lib m = Inr p
      \<or> ComTreeConnectAndxRequest_decode lib m = Inr p \<longrightarrow>
    (\<exists>andx_reserved.
       struct_unpack (BigEndian, [U8, U8, U16])
         (py_slice_to (parameters_data m) (DEFAULT_ANDX_PARAM_SIZE lib))
       = Inr [0xFF, andx_reserved, 0]))
   \<and> (struct_unpack (BigEndian, [U8, U8, U16])
         (py_slice_to (parameters_data m) (DEFAULT_ANDX_PARAM_SIZE lib))
       = Inr [andx_command, andx_reserved, andx_offset]
      \<and> \<not> (andx_command = 0xFF \<and> andx_offset = 0) \<longrightarrow>
      ComSessionSetupAndxRequest_decode lib m = Inl non_terminal_andx
      \<and> ComTreeConnectAndxRequest_decode lib m = Inl non_terminal_andx)
   \<and> (struct_unpack (BigEndian, [U8, U8, U16])
         (py_slice_to (parameters_data m) (DEFAULT_ANDX_PARAM_SIZE lib)) = Inl e \<longrightarrow>
      ComSessionSetupAndxRequest_decode lib m = Inl e
      \<and> ComTreeConnectAndxRequest_decode lib m = Inl e)"
  using andx_check_Inr [OF decode_andx_check_ok, of lib m p]
    decode_andx_check_error [OF andx_check_Inl, of m lib andx_command andx_reserved andx_offset]
    decode_andx_check_error [OF andx_check_unpack_error, of m lib e]
  by blast

theorem andx_terminal_form_required_witness:
  "ComSessionSetupAndxRequest_decode example_lib example_session_setup_request
     = Inr (the (payload example_session_setup_request))
   \<and> ComTreeConnectAndxRequest_decode example_lib example_tree_connect_request
     = Inr (the (payload example_tree_connect_request))
   \<and> (\<exists>andx_reserved.
         struct_unpack (BigEndian, [U8, U8, U16])
           (py_slice_to (parameters_data example_session_setup_request)
              (DEFAULT_ANDX_PARAM_SIZE example_lib))
         = Inr [0xFF, andx_reserved, 0])
   \<and> struct_unpack (BigEndian, [U8, U8, U16])
         (py_slice_to (parameters_data example_chained_request)
            (DEFAULT_ANDX_PARAM_SIZE example_lib))
       = Inr [0x75, 0, 0x3C]
   \<and> ComSessionSetupAndxRequest_decode example_lib example_chained_request
       = Inl non_terminal_andx
   \<and> ComTreeConnectAndxRequest_decode example_lib example_chained_request
       = Inl non_terminal_andx"
proof -
  have a: "ComSessionSetupAndxRequest_decode example_lib example_session_setup_request
     = Inr (the (payload example_session_setup_request))"
    by (simp add: example_lib_def example_session_setup_bytes_def example_session_setup_request_def
      ComSessionSetupAndxRequest_decode_def read_padding_def decode_utf16le_def decode_defs)
  have b: "ComTreeConnectAndxRequest_decode example_lib example_tree_connect_request
     = Inr (the (payload example_tree_connect_request))"
    by (simp add: example_lib_def example_tree_connect_bytes_def example_tree_connect_request_def
      ComTreeConnectAndxRequest_decode_def read_share_padding_def decode_utf16le_def
      decode_utf8_def py_getitem_def decode_defs)
  have c: "struct_unpack (BigEndian, [U8, U8, U16])
         (py_slice_to (parameters_data example_chained_request)
            (DEFAULT_ANDX_PARAM_SIZE example_lib))
       = Inr [0x75, 0, 0x3C]"
    by (simp add: example_chained_request_def example_session_setup_request_def example_lib_def
        decode_defs)
  have d: "\<not> ((0x75::int) = 0xFF \<and> (0x3C::int) = 0)" by simp
  from andx_terminal_form_required [of example_lib example_session_setup_request
      "the (payload example_session_setup_request)"] a
  have "\<exists>andx_reserved.
         struct_unpack (BigEndian, [U8, U8, U16])
           (py_slice_to (parameters_data example_session_setup_request)
              (DEFAULT_ANDX_PARAM_SIZE example_lib))
         = Inr [0xFF, andx_reserved, 0]" by blast
  moreover
  from andx_terminal_form_required [of example_lib example_chained_request _ "0x75" 0 "0x3C"] c d
  have "ComSessionSetupAndxRequest_decode example_lib example_chained_request
       = Inl non_terminal_andx
   \<and> ComTreeConnectAndxRequest_decode example_lib example_chained_request
       = Inl non_terminal_andx" by blast
  ultimately show ?thesis using a b c by blast
qed

subsection \<open>Reading never sends, and a rejected request is not answered\<close>

lemma sock_recv_sent: "sock_recv s n = (r, s') \<Longrightarrow> sent s' = sent s"
  by (auto simp: sock_recv_def split: if_splits prod.splits)

lemma recv_loop_sent: "recv_loop s len recvd toret = (r, s') \<Longrightarrow> sent s' = sent s"
proof (induction s len recvd toret rule: recv_loop.induct)
  case (1 s len recvd toret)
  show ?case
  proof (cases "recvd \<noteq> len")
    case False
    with "1.prems" show ?thesis by simp
  next
    case True
    obtain r1 s1 where rc: "sock_recv s (len - recvd) = (r1, s1)" by (cases "sock_recv s (len - recvd)")
    from sock_recv_sent [OF rc] have s1: "sent s1 = sent s" .
    show ?thesis
    proof (cases r1)
      case (Inl e)
      with True rc "1.prems" s1 show ?thesis by simp
    next
      case (Inr b)
      show ?thesis
      proof (cases "b = []")
        case True
        with \<open>recvd \<noteq> len\<close> rc Inr "1.prems" s1 show ?thesis by simp
      next
        case False
        with \<open>recvd \<noteq> len\<close> rc Inr "1.prems"
        have "recv_loop s1 len (recvd + int (length b)) (toret @ [b]) = (r, s')" by simp
        from "1.IH" [OF \<open>recvd \<noteq> len\<close> rc [symmetric] Inr False this] s1
        show ?thesis by simp
      qed
    qed
  qed
qed

lemma read_message_sent:
  assumes "read_message lib s = (r, s')"
  shows "sent s' = sent s"
proof -
  obtain r1 s1 where a: "sock_recv s 4 = (r1, s1)" by (cases "sock_recv s 4")
  from sock_recv_sent [OF a] have s1: "sent s1 = sent s" .
  show ?thesis
  proof (cases r1)
    case (Inl e)
    with a assms s1 show ?thesis by (simp add: read_message_def)
  next
    case (Inr d)
    show ?thesis
    proof (cases "struct_unpack (BigEndian, [U32]) d")
      case (Inl e)
      with a Inr assms s1 show ?thesis by (simp add: read_message_def)
    next
      case vs: (Inr vs)
      show ?thesis
      proof (cases "\<exists>len. vs = [len]")
        case False
        with a Inr vs assms s1 show ?thesis
          by (auto simp: read_message_def split: list.splits)
      next
        case True
        then obtain len where len: "vs = [len]" ..
        obtain r2 s2 where b: "recv_all s1 len = (r2, s2)" by (cases "recv_all s1 len")
        from recv_loop_sent [OF b [unfolded recv_all_def]] s1 have "sent s2 = sent s" by simp
        with a Inr vs len b assms show ?thesis
          by (auto simp: read_message_def split: sum.splits)
      qed
    qed
  qed
qed

lemma exchange_rejected:
  assumes "read_message lib s = (Inr req, s1)" and "respond req = Inl e"
  shows "exchange lib respond s = (Inl e, s1) \<and> sent s1 = sent s"
  using assms read_message_sent [OF assms(1)] by (simp add: exchange_def)

lemma list_index_Inl: "list_index xs v = Inl e \<longleftrightarrow> e = ValueError \<and> v \<notin> set xs"
  by (induction xs) (auto split: sum.splits)

lemma list_index_Inr:
  "list_index xs v = Inr i \<Longrightarrow> 0 \<le> i \<and> nat i < length xs \<and> xs ! nat i = v \<and> v \<notin> set (take (nat i) xs)"
proof (induction xs arbitrary: i)
  case Nil
  then show ?case by simp
next
  case (Cons x xs)
  show ?case
  proof (cases "x = v")
    case True
    with Cons.prems show ?thesis by simp
  next
    case False
    with Cons.prems obtain j where j: "list_index xs v = Inr j" and i: "i = j + 1"
      by (auto split: sum.splits)
    from Cons.IH [OF j] have h: "0 \<le> j" "nat j < length xs" "xs ! nat j = v"
      "v \<notin> set (take (nat j) xs)" by simp_all
    from h(1) have n: "nat (j + 1) = Suc (nat j)" by simp
    from h False show ?thesis unfolding i n by simp
  qed
qed


subsection \<open>The dialect index that \<open>handle_negotiate\<close> selects\<close>

lemma handle_negotiate_dialects:
  assumes "command req = SMB_COM_NEGOTIATE lib" and "payload req = Some (ComNegotiateRequest ds)"
  shows "handle_negotiate lib clk req =
     (case list_index ds (py_str ''NT LM 0.12'') of
        Inl e \<Rightarrow> Inl e
      | Inr i \<Rightarrow>
          Inr (SMBMessage_init lib
                (ComNegotiateResponse None
                  \<lparr>dialect_index = i, security_mode = 0, max_mpx_count = 2 ^ 16 - 1,
                   max_number_vcs = 2 ^ 16 - 1, max_buffer_size = 2 ^ 16 - 1,
                   max_raw_size = 2 ^ 16 - 1, session_key = 0,
                   capabilities = server_capabilities lib,
                   system_time = (int_ts clk + 11644473600) * 10000000,
                   server_time_zone = utc_offset clk, challenge_length = 0\<rparr>)))"
  using assms by (simp add: handle_negotiate_def Let_def split: sum.splits)

lemma handle_negotiate_ValueError:
  assumes "handle_negotiate lib clk req = Inl ValueError"
  shows "\<exists>ds. payload_dialects (payload req) = Inr ds \<and> py_str ''NT LM 0.12'' \<notin> set ds"
proof -
  from assms have c: "command req = SMB_COM_NEGOTIATE lib"
    by (auto simp: handle_negotiate_def split: if_splits)
  show ?thesis
  proof (cases "payload_dialects (payload req)")
    case (Inl e)
    with assms c have "e = ValueError" by (simp add: handle_negotiate_def Let_def)
    with Inl show ?thesis
      by (cases "payload req" rule: payload_dialects.cases) (auto split: option.splits)
  next
    case (Inr ds)
    with assms c have "list_index ds (py_str ''NT LM 0.12'') = Inl ValueError"
      by (auto simp: handle_negotiate_def Let_def split: sum.splits)
    with Inr show ?thesis by (simp add: list_index_Inl)
  qed
qed

text \<open>
  Inside \<open>handle_negotiate\<close>: the index of the string NT LM 0.12 among the offered
  dialects becomes the \<open>dialect_index\<close> of the response, and \<open>list.index\<close> raises
  ValueError when the string is not offered; the handler then sends nothing.
\<close>

lemma handle_negotiate_selection:
  "(command req = SMB_COM_NEGOTIATE lib
      \<and> payload req = Some (ComNegotiateRequest [py_str ''LANMAN1.0'', py_str ''NT LM 0.12'']) \<longrightarrow>
      (\<exists>a. handle_negotiate lib clk req = Inr (SMBMessage_init lib (ComNegotiateResponse None a))
           \<and> dialect_index a = 1))
   \<and> (command req = SMB_COM_NEGOTIATE lib
      \<and> payload req = Some (ComNegotiateRequest [py_str ''LANMAN1.0'']) \<longrightarrow>
      handle_negotiate lib clk req = Inl ValueError)
   \<and> (command req = SMB_COM_NEGOTIATE lib \<and> payload req = Some (ComNegotiateRequest ds)
      \<and> py_str ''NT LM 0.12'' \<notin> set ds \<longrightarrow>
      handle_negotiate lib clk req = Inl ValueError)
   \<and> (handle_negotiate lib clk req = Inl ValueError \<longrightarrow>
      (\<exists>offered. payload_dialects (payload req) = Inr offered
                \<and> py_str ''NT LM 0.12'' \<notin> set offered))
   \<and> (read_message lib s = (Inr req, s1) \<and> handle_negotiate lib clk req = Inl ValueError \<longrightarrow>
      exchange lib (handle_negotiate lib clk) s = (Inl ValueError, s1) \<and> sent s1 = sent s)"
proof (intro conjI impI)
  assume a: "command req = SMB_COM_NEGOTIATE lib
      \<and> payload req = Some (ComNegotiateRequest [py_str ''LANMAN1.0'', py_str ''NT LM 0.12''])"
  have "list_index [py_str ''LANMAN1.0'', py_str ''NT LM 0.12''] (py_str ''NT LM 0.12'') = Inr 1"
    by (simp add: py_str_def)
  with a handle_negotiate_dialects [of req lib _ clk]
  show "\<exists>a. handle_negotiate lib clk req = Inr (SMBMessage_init lib (ComNegotiateResponse None a))
           \<and> dialect_index a = 1"
    by auto
next
  assume a: "command req = SMB_COM_NEGOTIATE lib
      \<and> payload req = Some (ComNegotiateRequest [py_str ''LANMAN1.0''])"
  have "list_index [py_str ''LANMAN1.0''] (py_str ''NT LM 0.12'') = Inl ValueError"
    by (simp add: py_str_def)
  with a handle_negotiate_dialects [of req lib _ clk]
  show "handle_negotiate lib clk req = Inl ValueError" by simp
next
  assume a: "command req = SMB_COM_NEGOTIATE lib \<and> payload req = Some (ComNegotiateRequest ds)
      \<and> py_str ''NT LM 0.12'' \<notin> set ds"
  then have "list_index ds (py_str ''NT LM 0.12'') = Inl ValueError"
    by (simp add: list_index_Inl)
  with a handle_negotiate_dialects [of req lib ds clk]
  show "handle_negotiate lib clk req = Inl ValueError" by simp
next
  assume "handle_negotiate lib clk req = Inl ValueError"
  from handle_negotiate_ValueError [OF this]
  show "\<exists>offered. payload_dialects (payload req) = Inr offered
                \<and> py_str ''NT LM 0.12'' \<notin> set offered" .
next
  assume a: "read_message lib s = (Inr req, s1) \<and> handle_negotiate lib clk req = Inl ValueError"
  from exchange_rejected [of lib s req s1 "handle_negotiate lib clk" ValueError] a
  show "exchange lib (handle_negotiate lib clk) s = (Inl ValueError, s1)" by simp
  from exchange_rejected [of lib s req s1 "handle_negotiate lib clk" ValueError] a
  show "sent s1 = sent s" by simp
qed

subsection \<open>An answered request, and evaluating \<open>struct.pack\<close>\<close>

lemma exchange_answered:
  assumes "read_message lib s = (Inr req, s1)" and "respond req = Inr resp"
    and "payload resp = Some p" and "payload_prepare lib p resp = Inr prepared"
    and "pack_message lib prepared = Inr raw"
    and "struct_pack (BigEndian, [U32]) [int (length raw)] = Inr pre"
  shows "exchange lib respond s
         = (Inr (req, prepared\<lparr>raw_data := raw\<rparr>), sock_sendall s1 (pre @ raw))"
  using assms by (simp add: exchange_def send_message_def SMBMessage_encode_def)

lemma sent_sock_sendall: "sent (sock_sendall s bs) = sent s @ [bs]"
  by (simp add: sock_sendall_def)

lemma le_bytes_numeral:
  "le_bytes (numeral n) v = word_of_int v # le_bytes (pred_numeral n) (v div 256)"
  by (simp add: numeral_eq_Suc)

lemma le_bytes_one: "le_bytes 1 v = [word_of_int v]"
  using le_bytes.simps(2) [of 0 v] by simp

lemmas pack_defs =
  SMBMessage_init_def init_reply_def prepare_def getattr_def example_pack_message_def
  struct_pack_def field_fits_def field_bytes_def header_format_def smb_signature_def
  le_bytes_numeral le_bytes_one Let_def py_bytes_def


subsection \<open>C6: the echo response\<close>

lemma handle_echo_count:
  assumes "payload req = Some (ComEchoRequest c d)"
  shows "handle_echo lib req =
     (if 1 < c then Inl NameError
      else Inr (SMBMessage_init lib (ComEchoResponse (Some (response_args_from_req req)) 0 d)))"
  using assms by (simp add: handle_echo_def)

lemma ComEchoResponse_prepare_zero:
  "ComEchoResponse_prepare kw 0 d m
   = Inr ((prepare (ComEchoResponse kw 0 d) m)\<lparr>parameters_data := [0, 0], data := d\<rparr>)"
  by (simp add: ComEchoResponse_prepare_def struct_pack_def field_fits_def field_bytes_def
      numeral_2_eq_2)

text \<open>
  C6. An ECHO request with the echo count 1 is answered by exactly one message, whose
  parameters block is \<open>struct.pack('<H', 0)\<close>, the sequence number 0, and whose data block
  is the data of the request (\<open>ping\<close> in the example of the claim), provided the library
  packs the prepared message and its length fits the prefix. With an echo count greater
  than 1 the handler raises (the NameError of line 379) and sends nothing.
\<close>

theorem echo_fidelity:
  "(read_message lib s = (Inr req, s1) \<and> payload req = Some (ComEchoRequest 1 d)
      \<and> pack_message lib
           ((prepare (ComEchoResponse (Some (response_args_from_req req)) 0 d)
              (SMBMessage_init lib (ComEchoResponse (Some (response_args_from_req req)) 0 d)))
            \<lparr>parameters_data := [0, 0], data := d\<rparr>) = Inr raw
      \<and> struct_pack (BigEndian, [U32]) [int (length raw)] = Inr pre \<longrightarrow>
      (\<exists>resp s2. exchange lib (handle_echo lib) s = (Inr (req, resp), s2)
         \<and> sent s2 = sent s @ [pre @ raw]
         \<and> parameters_data resp = [0, 0]
         \<and> struct_unpack (LittleEndian, [U16]) (parameters_data resp) = Inr [0]
         \<and> data resp = d))
   \<and> (read_message lib s = (Inr req, s1) \<and> payload req = Some (ComEchoRequest c d) \<and> 1 < c \<longrightarrow>
      exchange lib (handle_echo lib) s = (Inl NameError, s1) \<and> sent s1 = sent s)"
proof (intro conjI impI)
  let ?p = "ComEchoResponse (Some (response_args_from_req req)) 0 d"
  let ?m = "(prepare ?p (SMBMessage_init lib ?p))\<lparr>parameters_data := [0, 0], data := d\<rparr>"
  assume a: "read_message lib s = (Inr req, s1) \<and> payload req = Some (ComEchoRequest 1 d)
      \<and> pack_message lib ?m = Inr raw
      \<and> struct_pack (BigEndian, [U32]) [int (length raw)] = Inr pre"
  then have h: "handle_echo lib req = Inr (SMBMessage_init lib ?p)"
    by (simp add: handle_echo_count)
  have pl: "payload (SMBMessage_init lib ?p) = Some ?p"
    by (rule SMBMessage_init_fields) simp
  have pr: "payload_prepare lib ?p (SMBMessage_init lib ?p) = Inr ?m"
    by (simp add: ComEchoResponse_prepare_zero)
  from a have r: "read_message lib s = (Inr req, s1)" and pk: "pack_message lib ?m = Inr raw"
    and sp: "struct_pack (BigEndian, [U32]) [int (length raw)] = Inr pre" by simp_all
  have "exchange lib (handle_echo lib) s
      = (Inr (req, ?m\<lparr>raw_data := raw\<rparr>), sock_sendall s1 (pre @ raw))"
    by (rule exchange_answered [where respond = "handle_echo lib", OF r h pl pr pk sp])
  moreover from a read_message_sent have "sent s1 = sent s" by blast
  ultimately
  show "\<exists>resp s2. exchange lib (handle_echo lib) s = (Inr (req, resp), s2)
         \<and> sent s2 = sent s @ [pre @ raw]
         \<and> parameters_data resp = [0, 0]
         \<and> struct_unpack (LittleEndian, [U16]) (parameters_data resp) = Inr [0]
         \<and> data resp = d"
    by (simp add: sent_sock_sendall struct_unpack_def calcsize_def field_value_def)
next
  assume a: "read_message lib s = (Inr req, s1) \<and> payload req = Some (ComEchoRequest c d) \<and> 1 < c"
  then have "handle_echo lib req = Inl NameError" by (simp add: handle_echo_count)
  with a exchange_rejected [of lib s req s1 "handle_echo lib" NameError]
  show "exchange lib (handle_echo lib) s = (Inl NameError, s1)" and "sent s1 = sent s"
    by simp_all
qed


theorem echo_fidelity_witness:
  "read_message example_lib example_echo_sock
     = (Inr example_echo_request, \<lparr>incoming = [], sent = []\<rparr>)
   \<and> payload example_echo_request = Some (ComEchoRequest 1 (py_bytes ''ping''))
   \<and> (\<exists>resp s2. exchange example_lib (handle_echo example_lib) example_echo_sock
                     = (Inr (example_echo_request, resp), s2)
         \<and> sent s2 = [[0, 0, 0, 41] @ example_echo_reply_bytes]
         \<and> parameters_data resp = [0, 0]
         \<and> data resp = py_bytes ''ping'')
   \<and> read_message example_lib example_echo2_sock
     = (Inr example_echo2_request, \<lparr>incoming = [], sent = []\<rparr>)
   \<and> exchange example_lib (handle_echo example_lib) example_echo2_sock
     = (Inl NameError, \<lparr>incoming = [], sent = []\<rparr>)"
proof -
  have r: "read_message example_lib example_echo_sock
      = (Inr example_echo_request, \<lparr>incoming = [], sent = []\<rparr>)"
    by (simp add: read_message_def example_echo_sock_def sock_recv_def recv_all_def
        example_echo_bytes_def example_echo_request_def example_lib_def
        ComEchoRequest_decode_def decode_defs)
  have p: "payload example_echo_request = Some (ComEchoRequest 1 (py_bytes ''ping''))"
    by (simp add: example_echo_request_def)
  have k: "pack_message example_lib
     ((prepare
         (ComEchoResponse (Some (response_args_from_req example_echo_request)) 0
            (py_bytes ''ping''))
         (SMBMessage_init example_lib
            (ComEchoResponse (Some (response_args_from_req example_echo_request)) 0
               (py_bytes ''ping''))))
      \<lparr>parameters_data := [0, 0], data := py_bytes ''ping''\<rparr>) = Inr example_echo_reply_bytes"
    by (simp add: example_lib_def example_echo_request_def response_args_from_req_def
        example_echo_reply_bytes_def pack_defs)
  have l: "struct_pack (BigEndian, [U32]) [int (length example_echo_reply_bytes)]
      = Inr [0, 0, 0, 41]"
    by (simp add: example_echo_reply_bytes_def pack_defs)
  have r2: "read_message example_lib example_echo2_sock
      = (Inr example_echo2_request, \<lparr>incoming = [], sent = []\<rparr>)"
    by (simp add: read_message_def example_echo2_sock_def sock_recv_def recv_all_def
        example_echo2_bytes_def example_echo2_request_def example_lib_def
        ComEchoRequest_decode_def decode_defs)
  have p2: "payload example_echo2_request = Some (ComEchoRequest 2 (py_bytes ''ping''))"
    by (simp add: example_echo2_request_def)
  have s: "sent example_echo_sock = []" by (simp add: example_echo_sock_def)
  note t1 = echo_fidelity [where lib = example_lib and s = example_echo_sock
      and req = example_echo_request and ?s1.0 = "\<lparr>incoming = [], sent = []\<rparr>"
      and d = "py_bytes ''ping''" and raw = example_echo_reply_bytes and pre = "[0, 0, 0, 41]"]
  note t2 = echo_fidelity [where lib = example_lib and s = example_echo2_sock
      and req = example_echo2_request and ?s1.0 = "\<lparr>incoming = [], sent = []\<rparr>"
      and d = "py_bytes ''ping''" and c = 2]
  from t1 [THEN conjunct1, THEN mp, OF conjI [OF r conjI [OF p conjI [OF k l]]]] s
  have "\<exists>resp s2. exchange example_lib (handle_echo example_lib) example_echo_sock
                     = (Inr (example_echo_request, resp), s2)
         \<and> sent s2 = [[0, 0, 0, 41] @ example_echo_reply_bytes]
         \<and> parameters_data resp = [0, 0]
         \<and> data resp = py_bytes ''ping''" by auto
  moreover
  have "(1::int) < 2" by simp
  from t2 [THEN conjunct2, THEN mp, OF conjI [OF r2 conjI [OF p2 this]]]
  have "exchange example_lib (handle_echo example_lib) example_echo2_sock
     = (Inl NameError, \<lparr>incoming = [], sent = []\<rparr>)" by simp
  ultimately show ?thesis using r p r2 by blast
qed

subsection \<open>C7: capabilities outside the server's set\<close>

lemma outside_bits:
  "(c AND NOT sc \<noteq> (0::int)) \<longleftrightarrow> (\<exists>n. bit c n \<and> \<not> bit sc n)"
  by (auto simp: bit_eq_iff bit_simps)

lemma server_capabilities_bit:
  "bit (server_capabilities lib) n \<longleftrightarrow>
     bit (CAP_UNICODE lib) n \<or> bit (CAP_LARGE_FILES lib) n \<or> bit (CAP_STATUS32 lib) n"
  by (auto simp: server_capabilities_def bit_simps)

lemma handle_session_setup_caps:
  assumes "command req = SMB_COM_SESSION_SETUP_ANDX lib"
    and "payload req = Some (ComSessionSetupAndxRequest r)"
  shows "handle_session_setup lib req =
     (if req_capabilities r AND NOT (server_capabilities lib) \<noteq> 0
      then Inl (Exception ''Client sent capabilities outside of the server posted caps'')
      else Inr (SMBMessage_init lib
                 (ComSessionSetupAndxResponse (Some (response_args_from_req req)) 1
                    (req_domain r))))"
  using assms by (simp add: handle_session_setup_def)

lemma encode_Unix: "encode_utf16le (py_str ''Unix'') = Inr [0x55, 0, 0x6E, 0, 0x69, 0, 0x78, 0]"
  by (simp add: py_str_def unit_bytes_def)

lemma encode_DropboxFS:
  "encode_utf16le (py_str ''DropboxFS'')
   = Inr [0x44, 0, 0x72, 0, 0x6F, 0, 0x70, 0, 0x62, 0, 0x6F, 0, 0x78, 0, 0x46, 0, 0x53, 0]"
  by (simp add: py_str_def unit_bytes_def)

lemma pack_action: "struct_pack (LittleEndian, [U16, U16]) [1, 0] = Inr [1, 0, 0, 0]"
  by (simp add: struct_pack_def field_fits_def field_bytes_def le_bytes_numeral le_bytes_one)

lemma ComSessionSetupAndxResponse_prepare_ok:
  assumes "encode_utf16le domain = Inr enc"
  shows "ComSessionSetupAndxResponse_prepare lib (Some i) 1 domain m
   = Inr (m\<lparr>pid := kw_pid i,
            parameters_data := DEFAULT_ANDX_PARAM_HEADER lib @ [1, 0, 0, 0],
            data := (if (HEADER_STRUCT_SIZE lib
                          + int (length (DEFAULT_ANDX_PARAM_HEADER lib @ [1, 0, 0, 0]))) mod 2 \<noteq> 0
                     then [0] else [])
                    @ [0x55, 0, 0x6E, 0, 0x69, 0, 0x78, 0] @ [0, 0]
                    @ [0x44, 0, 0x72, 0, 0x6F, 0, 0x70, 0, 0x62, 0, 0x6F, 0, 0x78, 0, 0x46, 0, 0x53, 0]
                    @ [0, 0] @ enc @ [0, 0]\<rparr>)"
  using assms
  by (simp add: ComSessionSetupAndxResponse_prepare_def pack_action encode_Unix encode_DropboxFS
      prepare_def Let_def)

text \<open>
  C7, as amended. A SESSION_SETUP_ANDX request whose capabilities have a bit that is in
  none of \<open>CAP_UNICODE\<close>, \<open>CAP_LARGE_FILES\<close> and \<open>CAP_STATUS32\<close>, the capabilities of
  the NEGOTIATE response, is rejected with an exception and nothing is sent for it. For
  every other request the handler builds a \<open>ComSessionSetupAndxResponse\<close> of action 1 and
  the domain of the request; when the domain can be encoded in UTF-16 its \<open>prepare\<close> gives
  the parameters block of the terminal extension header, the action 1 and the blob length
  0, and a data block that ends with the domain. That message is sent, once, exactly when
  the library can pack it and its length fits the prefix; when \<open>encode\<close> or the prefix
  raises, the step ends with that error and nothing is sent.
\<close>

theorem session_setup_capabilities:
  "(read_message lib s = (Inr req, s1)
      \<and> command req = SMB_COM_SESSION_SETUP_ANDX lib
      \<and> payload req = Some (ComSessionSetupAndxRequest r)
      \<and> (\<exists>n. bit (req_capabilities r) n
             \<and> \<not> (bit (CAP_UNICODE lib) n \<or> bit (CAP_LARGE_FILES lib) n
                    \<or> bit (CAP_STATUS32 lib) n)) \<longrightarrow>
      exchange lib (handle_session_setup lib) s
        = (Inl (Exception ''Client sent capabilities outside of the server posted caps''), s1)
      \<and> sent s1 = sent s)
   \<and> (command req = SMB_COM_SESSION_SETUP_ANDX lib
      \<and> payload req = Some (ComSessionSetupAndxRequest r)
      \<and> \<not> (\<exists>n. bit (req_capabilities r) n
               \<and> \<not> (bit (CAP_UNICODE lib) n \<or> bit (CAP_LARGE_FILES lib) n
                      \<or> bit (CAP_STATUS32 lib) n)) \<longrightarrow>
      handle_session_setup lib req
        = Inr (SMBMessage_init lib
                (ComSessionSetupAndxResponse (Some (response_args_from_req req)) 1
                   (req_domain r))))
   \<and> (encode_utf16le (req_domain r) = Inr enc \<longrightarrow>
      (\<exists>prepared pad.
         payload_prepare lib
           (ComSessionSetupAndxResponse (Some (response_args_from_req req)) 1 (req_domain r))
           (SMBMessage_init lib
             (ComSessionSetupAndxResponse (Some (response_args_from_req req)) 1
                (req_domain r)))
         = Inr prepared
         \<and> parameters_data prepared = DEFAULT_ANDX_PARAM_HEADER lib @ [1, 0, 0, 0]
         \<and> data prepared =
             pad @ [0x55, 0, 0x6E, 0, 0x69, 0, 0x78, 0] @ [0, 0]
             @ [0x44, 0, 0x72, 0, 0x6F, 0, 0x70, 0, 0x62, 0, 0x6F, 0, 0x78, 0, 0x46, 0, 0x53, 0]
             @ [0, 0] @ enc @ [0, 0]))
   \<and> (read_message lib s = (Inr req, s1)
      \<and> handle_session_setup lib req
        = Inr (SMBMessage_init lib
                (ComSessionSetupAndxResponse (Some (response_args_from_req req)) 1
                   (req_domain r)))
      \<and> payload_prepare lib
           (ComSessionSetupAndxResponse (Some (response_args_from_req req)) 1 (req_domain r))
           (SMBMessage_init lib
             (ComSessionSetupAndxResponse (Some (response_args_from_req req)) 1
                (req_domain r)))
         = Inr prepared
      \<and> pack_message lib prepared = Inr raw
      \<and> struct_pack (BigEndian, [U32]) [int (length raw)] = Inr pre \<longrightarrow>
      exchange lib (handle_session_setup lib) s
        = (Inr (req, prepared\<lparr>raw_data := raw\<rparr>), sock_sendall s1 (pre @ raw))
      \<and> sent (sock_sendall s1 (pre @ raw)) = sent s @ [pre @ raw])
   \<and> (read_message lib s = (Inr req, s1)
      \<and> handle_session_setup lib req = Inr resp
      \<and> SMBMessage_encode lib resp = Inl e \<longrightarrow>
      exchange lib (handle_session_setup lib) s = (Inl e, s1) \<and> sent s1 = sent s)
   \<and> (read_message lib s = (Inr req, s1)
      \<and> handle_session_setup lib req = Inr resp
      \<and> SMBMessage_encode lib resp = Inr (packed, bs)
      \<and> struct_pack (BigEndian, [U32]) [int (length bs)] = Inl e \<longrightarrow>
      exchange lib (handle_session_setup lib) s = (Inl e, s1) \<and> sent s1 = sent s)"
proof (intro conjI impI)
  let ?p = "ComSessionSetupAndxResponse (Some (response_args_from_req req)) 1 (req_domain r)"
  let ?e = "Exception ''Client sent capabilities outside of the server posted caps''"
  {
    assume a: "read_message lib s = (Inr req, s1)
      \<and> command req = SMB_COM_SESSION_SETUP_ANDX lib
      \<and> payload req = Some (ComSessionSetupAndxRequest r)
      \<and> (\<exists>n. bit (req_capabilities r) n
             \<and> \<not> (bit (CAP_UNICODE lib) n \<or> bit (CAP_LARGE_FILES lib) n
                    \<or> bit (CAP_STATUS32 lib) n))"
    then have "req_capabilities r AND NOT (server_capabilities lib) \<noteq> 0"
      by (simp add: outside_bits server_capabilities_bit)
    with a have "handle_session_setup lib req = Inl ?e"
      by (simp add: handle_session_setup_caps)
    with a exchange_rejected [of lib s req s1 "handle_session_setup lib" ?e]
    show "exchange lib (handle_session_setup lib) s = (Inl ?e, s1)" and "sent s1 = sent s"
      by simp_all
  }
  {
    assume a: "command req = SMB_COM_SESSION_SETUP_ANDX lib
      \<and> payload req = Some (ComSessionSetupAndxRequest r)
      \<and> \<not> (\<exists>n. bit (req_capabilities r) n
               \<and> \<not> (bit (CAP_UNICODE lib) n \<or> bit (CAP_LARGE_FILES lib) n
                      \<or> bit (CAP_STATUS32 lib) n))"
    then have "\<not> req_capabilities r AND NOT (server_capabilities lib) \<noteq> 0"
      unfolding outside_bits server_capabilities_bit by blast
    with a show "handle_session_setup lib req = Inr (SMBMessage_init lib ?p)"
      by (simp add: handle_session_setup_caps)
  }
  {
    assume "encode_utf16le (req_domain r) = Inr enc"
    from ComSessionSetupAndxResponse_prepare_ok [OF this,
        of lib "response_args_from_req req" "SMBMessage_init lib ?p"]
    show "\<exists>prepared pad.
         payload_prepare lib ?p (SMBMessage_init lib ?p) = Inr prepared
         \<and> parameters_data prepared = DEFAULT_ANDX_PARAM_HEADER lib @ [1, 0, 0, 0]
         \<and> data prepared =
             pad @ [0x55, 0, 0x6E, 0, 0x69, 0, 0x78, 0] @ [0, 0]
             @ [0x44, 0, 0x72, 0, 0x6F, 0, 0x70, 0, 0x62, 0, 0x6F, 0, 0x78, 0, 0x46, 0, 0x53, 0]
             @ [0, 0] @ enc @ [0, 0]"
      by (cases "(HEADER_STRUCT_SIZE lib
                   + int (length (DEFAULT_ANDX_PARAM_HEADER lib @ [1, 0, 0, 0]))) mod 2 \<noteq> 0")
         auto
  }
  {
    assume a: "read_message lib s = (Inr req, s1)
      \<and> handle_session_setup lib req = Inr (SMBMessage_init lib ?p)
      \<and> payload_prepare lib ?p (SMBMessage_init lib ?p) = Inr prepared
      \<and> pack_message lib prepared = Inr raw
      \<and> struct_pack (BigEndian, [U32]) [int (length raw)] = Inr pre"
    have pl: "payload (SMBMessage_init lib ?p) = Some ?p"
      by (rule SMBMessage_init_fields) simp
    from a have r: "read_message lib s = (Inr req, s1)"
      and h: "handle_session_setup lib req = Inr (SMBMessage_init lib ?p)"
      and pr: "payload_prepare lib ?p (SMBMessage_init lib ?p) = Inr prepared"
      and pk: "pack_message lib prepared = Inr raw"
      and sp: "struct_pack (BigEndian, [U32]) [int (length raw)] = Inr pre" by simp_all
    show "exchange lib (handle_session_setup lib) s
        = (Inr (req, prepared\<lparr>raw_data := raw\<rparr>), sock_sendall s1 (pre @ raw))"
      by (rule exchange_answered [where respond = "handle_session_setup lib", OF r h pl pr pk sp])
    from read_message_sent [OF r]
    show "sent (sock_sendall s1 (pre @ raw)) = sent s @ [pre @ raw]"
      by (simp add: sent_sock_sendall)
  }
  {
    assume a: "read_message lib s = (Inr req, s1)
      \<and> handle_session_setup lib req = Inr resp
      \<and> SMBMessage_encode lib resp = Inl e"
    then show "exchange lib (handle_session_setup lib) s = (Inl e, s1)"
      by (simp add: exchange_def send_message_def)
    from a read_message_sent show "sent s1 = sent s" by blast
  }
  {
    assume a: "read_message lib s = (Inr req, s1)
      \<and> handle_session_setup lib req = Inr resp
      \<and> SMBMessage_encode lib resp = Inr (packed, bs)
      \<and> struct_pack (BigEndian, [U32]) [int (length bs)] = Inl e"
    then show "exchange lib (handle_session_setup lib) s = (Inl e, s1)"
      by (simp add: exchange_def send_message_def)
    from a read_message_sent show "sent s1 = sent s" by blast
  }
qed

theorem session_setup_capabilities_witness:
  "read_message example_lib example_overcap_sock
     = (Inr example_overcap_request, \<lparr>incoming = [], sent = []\<rparr>)
   \<and> exchange example_lib (handle_session_setup example_lib) example_overcap_sock
     = (Inl (Exception ''Client sent capabilities outside of the server posted caps''),
        \<lparr>incoming = [], sent = []\<rparr>)
   \<and> read_message example_lib example_session_setup_sock
     = (Inr example_session_setup_request, \<lparr>incoming = [], sent = []\<rparr>)
   \<and> exchange example_lib (handle_session_setup example_lib) example_session_setup_sock
     = (Inr (example_session_setup_request,
             example_session_setup_reply\<lparr>raw_data := example_session_setup_reply_bytes\<rparr>),
        \<lparr>incoming = [], sent = [[0, 0, 0, 82] @ example_session_setup_reply_bytes]\<rparr>)"
proof -
  let ?empty = "\<lparr>incoming = [], sent = []\<rparr>"
  let ?r = "\<lparr>req_max_buffer_size = 4356, req_max_mpx_count = 50, req_vc_number = 1,
           req_session_key = 0, req_capabilities = 0x44, req_password = [],
           req_username = [0x41, 0x100], req_domain = py_str ''DOM'',
           req_native_os = py_str ''OS'', req_native_lan_man = py_str ''LM''\<rparr>"
  let ?o = "\<lparr>req_max_buffer_size = 4356, req_max_mpx_count = 50, req_vc_number = 1,
           req_session_key = 0, req_capabilities = 0x1044, req_password = [],
           req_username = [0x41, 0x100], req_domain = py_str ''DOM'',
           req_native_os = py_str ''OS'', req_native_lan_man = py_str ''LM''\<rparr>"
  let ?p = "ComSessionSetupAndxResponse
              (Some (response_args_from_req example_session_setup_request)) 1 (req_domain ?r)"
  have r1: "read_message example_lib example_overcap_sock = (Inr example_overcap_request, ?empty)"
    by (simp add: read_message_def example_overcap_sock_def sock_recv_def recv_all_def
        example_overcap_bytes_def example_overcap_request_def example_lib_def
        ComSessionSetupAndxRequest_decode_def read_padding_def decode_utf16le_def decode_defs)
  have c1: "command example_overcap_request = SMB_COM_SESSION_SETUP_ANDX example_lib"
    by (simp add: example_overcap_request_def example_lib_def)
  have p1: "payload example_overcap_request = Some (ComSessionSetupAndxRequest ?o)"
    by (simp add: example_overcap_request_def)
  have "req_capabilities ?o AND NOT (server_capabilities example_lib) \<noteq> 0"
    by (simp add: server_capabilities_def example_lib_def)
  then have b1: "\<exists>n. bit (req_capabilities ?o) n
             \<and> \<not> (bit (CAP_UNICODE example_lib) n \<or> bit (CAP_LARGE_FILES example_lib) n
                    \<or> bit (CAP_STATUS32 example_lib) n)"
    unfolding outside_bits server_capabilities_bit .
  have r2: "read_message example_lib example_session_setup_sock
      = (Inr example_session_setup_request, ?empty)"
    by (simp add: read_message_def example_session_setup_sock_def sock_recv_def recv_all_def
        example_session_setup_bytes_def example_session_setup_request_def example_lib_def
        ComSessionSetupAndxRequest_decode_def read_padding_def decode_utf16le_def decode_defs)
  have c2: "command example_session_setup_request = SMB_COM_SESSION_SETUP_ANDX example_lib"
    by (simp add: example_session_setup_request_def example_lib_def)
  have p2: "payload example_session_setup_request = Some (ComSessionSetupAndxRequest ?r)"
    by (simp add: example_session_setup_request_def)
  have "\<not> req_capabilities ?r AND NOT (server_capabilities example_lib) \<noteq> 0"
    by (simp add: server_capabilities_def example_lib_def)
  then have b2: "\<not> (\<exists>n. bit (req_capabilities ?r) n
               \<and> \<not> (bit (CAP_UNICODE example_lib) n \<or> bit (CAP_LARGE_FILES example_lib) n
                      \<or> bit (CAP_STATUS32 example_lib) n))"
    unfolding outside_bits server_capabilities_bit .
  have pr: "payload_prepare example_lib ?p (SMBMessage_init example_lib ?p)
      = Inr example_session_setup_reply"
    by (simp add: ComSessionSetupAndxResponse_prepare_def example_session_setup_reply_def
        example_session_setup_request_def response_args_from_req_def example_ids_def
        example_lib_def unit_bytes_def pack_defs py_str_def)
  have pk: "pack_message example_lib example_session_setup_reply
      = Inr example_session_setup_reply_bytes"
    by (simp add: example_session_setup_reply_def example_session_setup_reply_bytes_def
        example_lib_def pack_defs)
  have sp: "struct_pack (BigEndian, [U32]) [int (length example_session_setup_reply_bytes)]
      = Inr [0, 0, 0, 82]"
    by (simp add: example_session_setup_reply_bytes_def pack_defs)
  note t1 = session_setup_capabilities [where lib = example_lib and s = example_overcap_sock
      and req = example_overcap_request and ?s1.0 = ?empty and r = ?o]
  note t2 = session_setup_capabilities [where lib = example_lib
      and s = example_session_setup_sock and req = example_session_setup_request
      and ?s1.0 = ?empty and r = ?r and prepared = example_session_setup_reply
      and raw = example_session_setup_reply_bytes and pre = "[0, 0, 0, 82]"]
  from t1 [THEN conjunct1, THEN mp, OF conjI [OF r1 conjI [OF c1 conjI [OF p1 b1]]]]
  have x1: "exchange example_lib (handle_session_setup example_lib) example_overcap_sock
     = (Inl (Exception ''Client sent capabilities outside of the server posted caps''), ?empty)"
    by simp
  from t2 [THEN conjunct2, THEN conjunct1, THEN mp, OF conjI [OF c2 conjI [OF p2 b2]]]
  have h2: "handle_session_setup example_lib example_session_setup_request
      = Inr (SMBMessage_init example_lib ?p)" .
  from t2 [THEN conjunct2, THEN conjunct2, THEN conjunct2, THEN conjunct1, THEN mp,
      OF conjI [OF r2 conjI [OF h2 conjI [OF pr conjI [OF pk sp]]]]]
  have x2: "exchange example_lib (handle_session_setup example_lib) example_session_setup_sock
     = (Inr (example_session_setup_request,
             example_session_setup_reply\<lparr>raw_data := example_session_setup_reply_bytes\<rparr>),
        \<lparr>incoming = [], sent = [[0, 0, 0, 82] @ example_session_setup_reply_bytes]\<rparr>)"
    by (simp add: sock_sendall_def)
  from r1 x1 r2 x2 show ?thesis by blast
qed

text \<open>
  The claim as it was stated does not hold: the request of \<open>example_long_domain_bytes\<close> has
  the capabilities 0x44, all of them offered, and is decoded (its four strings end at even
  offsets); its domain of 32769 characters takes 65538 bytes in the UTF-16 of the response,
  the data block of the response would have 65571 bytes, more than its count of two bytes
  can say, and the step ends with the error of \<open>struct.pack\<close>: nothing is sent.
\<close>

lemma find_sub_replicate:
  "a \<noteq> z \<Longrightarrow> find_sub [z] (replicate n a @ ys) k = find_sub [z] ys (k + n)"
  by (induction n arbitrary: k) simp_all

lemma list_all_replicate: "list_all P (replicate n a) \<longleftrightarrow> n = 0 \<or> P a"
  by (auto simp: list_all_iff)

lemma encode_utf16le_replicate:
  "c < 0xD800 \<Longrightarrow> encode_utf16le (replicate n c) = Inr (concat (replicate n (unit_bytes c)))"
  by (induction n) simp_all

lemma length_concat_replicate: "length (concat (replicate n xs)) = n * length xs"
  by (induction n) simp_all

lemma example_long_domain_read:
  "read_message example_lib example_long_domain_sock
     = (Inr example_long_domain_request, \<lparr>incoming = [], sent = []\<rparr>)"
  by (simp add: read_message_def example_long_domain_sock_def sock_recv_def recv_all_def
      example_lib_def example_long_domain_bytes_def example_long_domain_request_def
      ComSessionSetupAndxRequest_decode_def read_padding_def decode_defs
      find_sub_replicate list_all_replicate)

lemma example_long_domain_response:
  "handle_session_setup example_lib example_long_domain_request
   = Inr (SMBMessage_init example_lib
           (ComSessionSetupAndxResponse (Some example_ids) 1 (replicate 32769 65)))"
  by (simp add: handle_session_setup_def example_long_domain_request_def example_lib_def
      server_capabilities_def response_args_from_req_def example_ids_def)

lemma example_long_domain_encode:
  "SMBMessage_encode example_lib
     (SMBMessage_init example_lib
        (ComSessionSetupAndxResponse (Some example_ids) 1 (replicate 32769 65)))
   = Inl StructError"
  by (simp add: SMBMessage_encode_def ComSessionSetupAndxResponse_prepare_def
      example_lib_def example_ids_def encode_utf16le_replicate length_concat_replicate
      unit_bytes_def pack_defs py_str_def)

theorem session_setup_long_domain_unanswered:
  "read_message example_lib example_long_domain_sock
     = (Inr example_long_domain_request, \<lparr>incoming = [], sent = []\<rparr>)
   \<and> command example_long_domain_request = SMB_COM_SESSION_SETUP_ANDX example_lib
   \<and> payload_capabilities (payload example_long_domain_request) = Inr 0x44
   \<and> 0x44 AND NOT (server_capabilities example_lib) = 0
   \<and> payload_domain (payload example_long_domain_request) = Inr (replicate 32769 65)
   \<and> exchange example_lib (handle_session_setup example_lib) example_long_domain_sock
     = (Inl StructError, \<lparr>incoming = [], sent = []\<rparr>)"
proof -
  have "exchange example_lib (handle_session_setup example_lib) example_long_domain_sock
     = (Inl StructError, \<lparr>incoming = [], sent = []\<rparr>)"
    using example_long_domain_read example_long_domain_response example_long_domain_encode
    by (simp add: exchange_def send_message_def)
  moreover have "command example_long_domain_request = SMB_COM_SESSION_SETUP_ANDX example_lib"
    and "payload_capabilities (payload example_long_domain_request) = Inr 0x44"
    and "0x44 AND NOT (server_capabilities example_lib) = 0"
    and "payload_domain (payload example_long_domain_request) = Inr (replicate 32769 65)"
    by (simp_all add: example_long_domain_request_def example_lib_def server_capabilities_def)
  ultimately show ?thesis using example_long_domain_read by blast
qed

subsection \<open>C3: a command other than ECHO in the echo step\<close>

fun is_echo_request :: "payload option \<Rightarrow> bool" where
  "is_echo_request (Some (ComEchoRequest c d)) = True"
| "is_echo_request p = False"

lemma with_payload_Inr:
  "with_payload m r = Inr req \<Longrightarrow> \<exists>p. r = Inr p \<and> req = m\<lparr>payload := Some p\<rparr>"
  by (auto simp: with_payload_def split: sum.splits)

lemma with_library_Inr:
  "with_library m r = Inr req \<Longrightarrow> \<exists>ob. req = m\<lparr>payload := Some (LibraryPayload ob)\<rparr>"
  by (auto simp: with_library_def split: sum.splits)

lemma ComNegotiateRequest_decode_class:
  "ComNegotiateRequest_decode m = Inr p \<Longrightarrow> \<exists>ds. p = ComNegotiateRequest ds"
  by (auto simp: ComNegotiateRequest_decode_def Let_def split: if_splits sum.splits)

lemma ComEchoRequest_decode_class:
  "ComEchoRequest_decode m = Inr p \<Longrightarrow> \<exists>c d. p = ComEchoRequest c d"
  by (auto simp: ComEchoRequest_decode_def Let_def split: sum.splits list.splits)

lemma ComSessionSetupAndxRequest_decode_class:
  "ComSessionSetupAndxRequest_decode lib m = Inr p \<Longrightarrow> \<exists>r. p = ComSessionSetupAndxRequest r"
  unfolding ComSessionSetupAndxRequest_decode_def Let_def
  by (simp split: sum.splits list.splits) blast?

lemma ComTreeConnectAndxRequest_decode_class:
  "ComTreeConnectAndxRequest_decode lib m = Inr p \<Longrightarrow> \<exists>r. p = ComTreeConnectAndxRequest r"
  unfolding ComTreeConnectAndxRequest_decode_def Let_def
  by (simp split: sum.splits list.splits) blast?

lemma library_object_not_echo_request: "\<not> is_echo_request (map_option LibraryPayload ob)"
  by (cases ob) simp_all

lemma decodePayload_not_echo:
  assumes "decodePayload lib m = Inr req" and "command m \<noteq> SMB_COM_ECHO lib"
    and "payload m = None"
  shows "command req = command m \<and> \<not> is_echo_request (payload req)"
proof (cases "isReply lib m")
  case True
  with assms show ?thesis
    by (auto simp: decodePayload_def library_object_not_echo_request split: sum.splits)
next
  case False
  note nr = this
  consider (lib) "command m = SMB_COM_READ_ANDX lib \<or> command m = SMB_COM_WRITE_ANDX lib
        \<or> command m = SMB_COM_TRANSACTION lib \<or> command m = SMB_COM_TRANSACTION2 lib
        \<or> command m = SMB_COM_OPEN_ANDX lib \<or> command m = SMB_COM_NT_CREATE_ANDX lib"
    | (tree) "\<not> (command m = SMB_COM_READ_ANDX lib \<or> command m = SMB_COM_WRITE_ANDX lib
        \<or> command m = SMB_COM_TRANSACTION lib \<or> command m = SMB_COM_TRANSACTION2 lib
        \<or> command m = SMB_COM_OPEN_ANDX lib \<or> command m = SMB_COM_NT_CREATE_ANDX lib)"
      "command m = SMB_COM_TREE_CONNECT_ANDX lib"
    | (sess) "\<not> (command m = SMB_COM_READ_ANDX lib \<or> command m = SMB_COM_WRITE_ANDX lib
        \<or> command m = SMB_COM_TRANSACTION lib \<or> command m = SMB_COM_TRANSACTION2 lib
        \<or> command m = SMB_COM_OPEN_ANDX lib \<or> command m = SMB_COM_NT_CREATE_ANDX lib)"
      "command m \<noteq> SMB_COM_TREE_CONNECT_ANDX lib" "command m = SMB_COM_SESSION_SETUP_ANDX lib"
    | (nego) "\<not> (command m = SMB_COM_READ_ANDX lib \<or> command m = SMB_COM_WRITE_ANDX lib
        \<or> command m = SMB_COM_TRANSACTION lib \<or> command m = SMB_COM_TRANSACTION2 lib
        \<or> command m = SMB_COM_OPEN_ANDX lib \<or> command m = SMB_COM_NT_CREATE_ANDX lib)"
      "command m \<noteq> SMB_COM_TREE_CONNECT_ANDX lib" "command m \<noteq> SMB_COM_SESSION_SETUP_ANDX lib"
      "command m = SMB_COM_NEGOTIATE lib"
    | (none) "\<not> (command m = SMB_COM_READ_ANDX lib \<or> command m = SMB_COM_WRITE_ANDX lib
        \<or> command m = SMB_COM_TRANSACTION lib \<or> command m = SMB_COM_TRANSACTION2 lib
        \<or> command m = SMB_COM_OPEN_ANDX lib \<or> command m = SMB_COM_NT_CREATE_ANDX lib)"
      "command m \<noteq> SMB_COM_TREE_CONNECT_ANDX lib" "command m \<noteq> SMB_COM_SESSION_SETUP_ANDX lib"
      "command m \<noteq> SMB_COM_NEGOTIATE lib"
    by blast
  then show ?thesis
  proof cases
    case lib
    with assms nr have "with_library m (library_request lib (command m) m) = Inr req"
      by (auto simp: decodePayload_def split: if_splits)
    from with_library_Inr [OF this] show ?thesis by auto
  next
    case tree
    with assms nr have "with_payload m (ComTreeConnectAndxRequest_decode lib m) = Inr req"
      by (simp add: decodePayload_def)
    from with_payload_Inr [OF this] ComTreeConnectAndxRequest_decode_class show ?thesis
      by fastforce
  next
    case sess
    with assms nr have "with_payload m (ComSessionSetupAndxRequest_decode lib m) = Inr req"
      by (simp add: decodePayload_def)
    from with_payload_Inr [OF this] ComSessionSetupAndxRequest_decode_class show ?thesis
      by fastforce
  next
    case nego
    with assms nr have "with_payload m (ComNegotiateRequest_decode m) = Inr req"
      by (simp add: decodePayload_def)
    from with_payload_Inr [OF this] ComNegotiateRequest_decode_class show ?thesis
      by fastforce
  next
    case none
    with assms nr have "req = m" by (simp add: decodePayload_def)
    with assms show ?thesis by simp
  qed
qed

lemma recv_all_cases:
  obtains (err) e s' where "recv_all s len = (Inl e, s')"
    | (ok) buf s' where "recv_all s len = (Inr buf, s')"
  by (cases "recv_all s len"; cases "fst (recv_all s len)") auto

lemma read_message_decoded:
  assumes "read_message lib s = (Inr req, s1)"
  shows "\<exists>buf. decode_smb_message lib buf = Inr req"
proof -
  obtain r1 s' where a: "sock_recv s 4 = (r1, s')" by (cases "sock_recv s 4")
  with assms obtain d where d: "r1 = Inr d" by (cases r1) (auto simp: read_message_def)
  with a assms obtain vs where vs: "struct_unpack (BigEndian, [U32]) d = Inr vs"
    by (cases "struct_unpack (BigEndian, [U32]) d") (auto simp: read_message_def)
  with a d assms obtain len where len: "vs = [len]"
    by (cases vs; cases "tl vs") (auto simp: read_message_def)
  obtain r2 s2 where b: "recv_all s' len = (r2, s2)" by (cases "recv_all s' len")
  with a d vs len assms obtain buf where "r2 = Inr buf"
    by (cases r2) (auto simp: read_message_def)
  with a d vs len b assms have "decode_smb_message lib buf = Inr req"
    by (simp add: read_message_def)
  then show ?thesis ..
qed

lemma decode_smb_message_not_echo:
  assumes "decode_smb_message lib buf = Inr req" and "command req \<noteq> SMB_COM_ECHO lib"
  shows "\<not> is_echo_request (payload req)"
proof -
  from assms(1) obtain m where m: "decode_header lib buf = Inr m"
    and d: "decodePayload lib (m\<lparr>payload := None\<rparr>) = Inr req"
    by (auto simp: decode_smb_message_def split: sum.splits)
  show ?thesis
  proof (cases "command (m\<lparr>payload := None\<rparr>) = SMB_COM_ECHO lib")
    case False
    from decodePayload_not_echo [OF d False] show ?thesis by simp
  next
    case True
    have "command req = command m"
    proof (cases "isReply lib (m\<lparr>payload := None\<rparr>)")
      case r: True
      with d show ?thesis by (auto simp: decodePayload_def split: sum.splits)
    next
      case r: False
      from d r True have
        "with_library (m\<lparr>payload := None\<rparr>) (library_request lib (command m) (m\<lparr>payload := None\<rparr>)) = Inr req
         \<or> with_payload (m\<lparr>payload := None\<rparr>) (ComTreeConnectAndxRequest_decode lib (m\<lparr>payload := None\<rparr>)) = Inr req
         \<or> with_payload (m\<lparr>payload := None\<rparr>) (ComEchoRequest_decode (m\<lparr>payload := None\<rparr>)) = Inr req"
        by (auto simp: decodePayload_def split: if_splits)
      then show ?thesis
        by (auto dest!: with_library_Inr with_payload_Inr)
    qed
    with True assms(2) show ?thesis by simp
  qed
qed

lemma payload_echo_count_other:
  assumes "\<not> is_echo_request p"
    and "\<forall>ob. p = Some (LibraryPayload ob) \<longrightarrow> lib_echo_count ob = None"
  shows "payload_echo_count p = Inl AttributeError"
  using assms by (cases p rule: payload_echo_count.cases) simp_all

text \<open>
  C3. In the fourth step the handler does not compare the command with ECHO; it reads
  \<open>echo_req.payload.echo_count\<close>. A message read there whose command is not
  \<open>SMB_COM_ECHO\<close> has as payload \<open>None\<close>, a request object of another class of
  smbserver.py, or an object of the library; the first two have no \<open>echo_count\<close>, and
  the theorem assumes it of the third. Then the read raises AttributeError: the step ends
  in an error and nothing is sent.
\<close>

theorem echo_step_rejects_other_commands:
  "read_message lib s = (Inr req, s1) \<and> command req \<noteq> SMB_COM_ECHO lib
     \<and> (\<forall>ob. payload req = Some (LibraryPayload ob) \<longrightarrow> lib_echo_count ob = None) \<longrightarrow>
   exchange lib (handle_echo lib) s = (Inl AttributeError, s1) \<and> sent s1 = sent s"
proof
  assume a: "read_message lib s = (Inr req, s1) \<and> command req \<noteq> SMB_COM_ECHO lib
     \<and> (\<forall>ob. payload req = Some (LibraryPayload ob) \<longrightarrow> lib_echo_count ob = None)"
  then have r: "read_message lib s = (Inr req, s1)" by simp
  from read_message_decoded [OF r] obtain buf where "decode_smb_message lib buf = Inr req" ..
  from decode_smb_message_not_echo [OF this] a have "\<not> is_echo_request (payload req)" by simp
  from payload_echo_count_other [OF this] a
  have "payload_echo_count (payload req) = Inl AttributeError" by simp
  then have "handle_echo lib req = Inl AttributeError" by (simp add: handle_echo_def)
  from exchange_rejected [where respond = "handle_echo lib", OF r this]
  show "exchange lib (handle_echo lib) s = (Inl AttributeError, s1) \<and> sent s1 = sent s" .
qed

theorem echo_step_rejects_other_commands_witness:
  "read_message example_lib example_lanman_sock
     = (Inr example_lanman_request, \<lparr>incoming = [], sent = []\<rparr>)
   \<and> command example_lanman_request \<noteq> SMB_COM_ECHO example_lib
   \<and> exchange example_lib (handle_echo example_lib) example_lanman_sock
     = (Inl AttributeError, \<lparr>incoming = [], sent = []\<rparr>)
   \<and> read_message example_lib example_reply_sock
     = (Inr example_reply_request, \<lparr>incoming = [], sent = []\<rparr>)
   \<and> command example_reply_request \<noteq> SMB_COM_ECHO example_lib
   \<and> exchange example_lib (handle_echo example_lib) example_reply_sock
     = (Inl AttributeError, \<lparr>incoming = [], sent = []\<rparr>)"
proof -
  let ?empty = "\<lparr>incoming = [], sent = []\<rparr>"
  have r1: "read_message example_lib example_lanman_sock = (Inr example_lanman_request, ?empty)"
    by (simp add: read_message_def example_lanman_sock_def sock_recv_def recv_all_def
        example_lanman_bytes_def example_lanman_request_def example_lib_def
        ComNegotiateRequest_decode_def decode_defs)
  have c1: "command example_lanman_request \<noteq> SMB_COM_ECHO example_lib"
    by (simp add: example_lanman_request_def example_lib_def)
  have l1: "\<forall>ob. payload example_lanman_request = Some (LibraryPayload ob)
              \<longrightarrow> lib_echo_count ob = None"
    by (simp add: example_lanman_request_def)
  have r2: "read_message example_lib example_reply_sock = (Inr example_reply_request, ?empty)"
    by (simp add: read_message_def example_reply_sock_def sock_recv_def recv_all_def
        example_session_setup_reply_bytes_def example_reply_request_def example_lib_def
        decode_defs)
  have c2: "command example_reply_request \<noteq> SMB_COM_ECHO example_lib"
    by (simp add: example_reply_request_def example_lib_def)
  have l2: "\<forall>ob. payload example_reply_request = Some (LibraryPayload ob)
              \<longrightarrow> lib_echo_count ob = None"
    by (simp add: example_reply_request_def)
  from echo_step_rejects_other_commands [THEN mp, OF conjI [OF r1 conjI [OF c1 l1]]]
  have x1: "exchange example_lib (handle_echo example_lib) example_lanman_sock
     = (Inl AttributeError, ?empty)" by simp
  from echo_step_rejects_other_commands [THEN mp, OF conjI [OF r2 conjI [OF c2 l2]]]
  have x2: "exchange example_lib (handle_echo example_lib) example_reply_sock
     = (Inl AttributeError, ?empty)" by simp
  from r1 c1 x1 r2 c2 x2 show ?thesis by blast
qed

subsection \<open>C1: the ids of a response\<close>

lemma send_message_keeps:
  assumes "response_class p" and "send_message lib (SMBMessage_init lib p) s = (Inr out, s')"
  shows "pid out = getattr p kw_pid 0 \<and> tid out = getattr p kw_tid 0
       \<and> uid out = getattr p kw_uid 0 \<and> mid out = getattr p kw_mid 0"
proof -
  from send_message_result [OF assms(2)] obtain q m' raw where
    q: "payload (SMBMessage_init lib p) = Some q"
    and pr: "payload_prepare lib q (SMBMessage_init lib p) = Inr m'"
    and out: "out = m'\<lparr>raw_data := raw\<rparr>" by blast
  from q SMBMessage_init_fields(1) [OF assms(1)] have "q = p" by simp
  with payload_prepare_keeps [OF assms(1)] pr out SMBMessage_init_fields [OF assms(1), of lib]
  show ?thesis by simp
qed

lemma negotiate_reply_ids:
  assumes "handle_negotiate lib clk req = Inr resp"
  shows "tid resp = 0 \<and> uid resp = 0 \<and> mid resp = 0
       \<and> (\<forall>s out s'. send_message lib resp s = (Inr out, s') \<longrightarrow>
             pid out = 0 \<and> tid out = 0 \<and> uid out = 0 \<and> mid out = 0)"
proof -
  from handle_negotiate_Inr [OF assms] obtain a
    where resp: "resp = SMBMessage_init lib (ComNegotiateResponse None a)" ..
  have c: "response_class (ComNegotiateResponse None a)" by simp
  from SMBMessage_init_fields [OF c, of lib] resp
  have "tid resp = 0 \<and> uid resp = 0 \<and> mid resp = 0" by (simp add: getattr_def)
  moreover have "pid out = 0 \<and> tid out = 0 \<and> uid out = 0 \<and> mid out = 0"
    if "send_message lib resp s = (Inr out, s')" for s out s'
    using send_message_keeps [OF c, of lib s out s'] that resp by (simp add: getattr_def)
  ultimately show ?thesis by blast
qed

lemma sibling_reply_ids:
  assumes "handle_session_setup lib req = Inr resp \<or> handle_tree_connect lib req = Inr resp
         \<or> handle_echo lib req = Inr resp"
    and "send_message lib resp s = (Inr out, s')"
  shows "pid out = pid req \<and> tid out = tid req \<and> uid out = uid req \<and> mid out = mid req"
proof -
  from assms(1) handle_session_setup_Inr handle_tree_connect_Inr handle_echo_Inr
  obtain p where p: "response_class p" "kwargs p = Some (response_args_from_req req)"
    and resp: "resp = SMBMessage_init lib p"
    by (metis kwargs.simps(2,3,4) response_class.simps(2,3,4))
  from send_message_keeps [OF p(1), of lib s out s'] assms(2) resp p(2)
  show ?thesis by (simp add: getattr_def response_args_from_req_def)
qed

text \<open>
  C1. The responses to SESSION_SETUP_ANDX, TREE_CONNECT_ANDX and ECHO are built from
  \<open>response_args_from_req\<close> and carry the four ids of their request (lemma
  \<open>sibling_reply_ids\<close>). The NEGOTIATE response is built without them (lines 330 to 345),
  so \<open>init_reply\<close> and \<open>prepare\<close> fall back on the default 0 (lemma
  \<open>negotiate_reply_ids\<close>). On the example, a NEGOTIATE request with the process id 7, the
  tree id 3, the user id 5 and the multiplex id 9 is answered by a message in which all
  four are 0.
\<close>

theorem negotiate_response_ids_not_copied:
  "exchange example_lib (handle_negotiate example_lib example_clock) example_negotiate_sock
     = (Inr (example_negotiate_request, example_negotiate_reply),
        \<lparr>incoming = [], sent = [[0, 0, 0, 69] @ example_negotiate_reply_bytes]\<rparr>)
   \<and> pid example_negotiate_request = 7 \<and> tid example_negotiate_request = 3
   \<and> uid example_negotiate_request = 5 \<and> mid example_negotiate_request = 9
   \<and> pid example_negotiate_reply = 0 \<and> tid example_negotiate_reply = 0
   \<and> uid example_negotiate_reply = 0 \<and> mid example_negotiate_reply = 0"
proof -
  have r: "read_message example_lib example_negotiate_sock
      = (Inr example_negotiate_request, \<lparr>incoming = [], sent = []\<rparr>)"
    by (simp add: read_message_def example_negotiate_sock_def sock_recv_def recv_all_def
        example_negotiate_bytes_def example_negotiate_request_def example_lib_def
        ComNegotiateRequest_decode_def decode_defs)
  have h: "handle_negotiate example_lib example_clock example_negotiate_request
      = Inr (example_negotiate_reply\<lparr>parameters_data := [], raw_data := []\<rparr>)"
    by (simp add: handle_negotiate_def example_negotiate_request_def example_negotiate_reply_def
        example_clock_def example_lib_def server_capabilities_def py_str_def
        SMBMessage_init_def init_reply_def getattr_def Let_def)
  have s: "send_message example_lib (example_negotiate_reply\<lparr>parameters_data := [], raw_data := []\<rparr>)
             \<lparr>incoming = [], sent = []\<rparr>
      = (Inr example_negotiate_reply,
         \<lparr>incoming = [], sent = [[0, 0, 0, 69] @ example_negotiate_reply_bytes]\<rparr>)"
    by (simp add: send_message_def SMBMessage_encode_def ComNegotiateResponse_prepare_def
        example_negotiate_reply_def example_negotiate_reply_bytes_def example_lib_def
        sock_sendall_def pack_defs)
  from r h s show ?thesis
    by (simp add: exchange_def example_negotiate_request_def example_negotiate_reply_def)
qed


subsection \<open>C2: the blocks of the TREE_CONNECT_ANDX response\<close>

lemma tree_connect_reply_blocks:
  assumes "handle_tree_connect lib req = Inr resp"
    and "send_message lib resp s = (Inr out, s')"
  shows "parameters_data out = parameters_data (new_message lib)
       \<and> data out = data (new_message lib)"
proof -
  from handle_tree_connect_Inr [OF assms(1)] obtain r where
    resp: "resp = SMBMessage_init lib
             (ComTreeConnectAndxResponse (Some (response_args_from_req req)) r)" ..
  let ?p = "ComTreeConnectAndxResponse (Some (response_args_from_req req)) r"
  have c: "response_class ?p" by simp
  from send_message_result [OF assms(2)] obtain q m' raw where
    q: "payload resp = Some q" and pr: "payload_prepare lib q resp = Inr m'"
    and out: "out = m'\<lparr>raw_data := raw\<rparr>" by blast
  from q resp SMBMessage_init_fields(1) [OF c, of lib] have "q = ?p" by simp
  with pr have "ComTreeConnectAndxResponse_prepare lib (Some (response_args_from_req req)) r resp
      = Inr m'" by simp
  then have "parameters_data m' = parameters_data resp \<and> data m' = data resp"
    by (auto simp: ComTreeConnectAndxResponse_prepare_def prepare_def Let_def
        split: option.splits sum.splits)
  with out resp SMBMessage_init_fields(5,6) [OF c, of lib] show ?thesis by simp
qed

text \<open>
  C2. \<open>ComTreeConnectAndxResponse.prepare\<close> stores the packed extension header with the
  optional-support bits, and the marker \<open>A:\<close> with its zero byte, in attributes of the
  payload; the blocks of the message stay as the constructor left them (lemma
  \<open>tree_connect_reply_blocks\<close>). On the example the TREE_CONNECT_ANDX response that is
  sent has no parameter word and no data byte.
\<close>

theorem tree_connect_response_blocks_empty:
  "exchange example_lib (handle_tree_connect example_lib) example_tree_connect_sock
     = (Inr (example_tree_connect_request, example_tree_connect_reply),
        \<lparr>incoming = [], sent = [[0, 0, 0, 35] @ example_tree_connect_reply_bytes]\<rparr>)
   \<and> parameters_data example_tree_connect_reply = []
   \<and> data example_tree_connect_reply = []"
proof -
  have r: "read_message example_lib example_tree_connect_sock
      = (Inr example_tree_connect_request, \<lparr>incoming = [], sent = []\<rparr>)"
    by (simp add: read_message_def example_tree_connect_sock_def sock_recv_def recv_all_def
        example_tree_connect_bytes_def example_tree_connect_request_def example_lib_def
        ComTreeConnectAndxRequest_decode_def read_share_padding_def decode_utf16le_def
        decode_utf8_def py_getitem_def decode_defs)
  have h: "handle_tree_connect example_lib example_tree_connect_request
      = Inr (example_tree_connect_reply
              \<lparr>pid := 0, raw_data := [],
               payload := Some (ComTreeConnectAndxResponse (Some example_ids)
                 \<lparr>optional_support = 1, service = py_str ''A:'',
                  native_file_system = py_str ''FAT'',
                  self_parameters_data = None, self_data = None\<rparr>)\<rparr>)"
    by (simp add: handle_tree_connect_def example_tree_connect_request_def
        example_tree_connect_reply_def example_ids_def response_args_from_req_def
        example_lib_def py_str_def SMBMessage_init_def init_reply_def getattr_def Let_def)
  have s: "send_message example_lib
             (example_tree_connect_reply
              \<lparr>pid := 0, raw_data := [],
               payload := Some (ComTreeConnectAndxResponse (Some example_ids)
                 \<lparr>optional_support = 1, service = py_str ''A:'',
                  native_file_system = py_str ''FAT'',
                  self_parameters_data = None, self_data = None\<rparr>)\<rparr>)
             \<lparr>incoming = [], sent = []\<rparr>
      = (Inr example_tree_connect_reply,
         \<lparr>incoming = [], sent = [[0, 0, 0, 35] @ example_tree_connect_reply_bytes]\<rparr>)"
    by (simp add: send_message_def SMBMessage_encode_def ComTreeConnectAndxResponse_prepare_def
        example_tree_connect_reply_def example_tree_connect_reply_bytes_def example_ids_def
        example_lib_def sock_sendall_def pack_defs)
  from r h s show ?thesis
    by (simp add: exchange_def example_tree_connect_reply_def)
qed

subsection \<open>C4: the dialect index, and the error when no dialect matches\<close>

lemma example_lanman_unanswered:
  "handle example_lib example_clock example_lanman_sock
     = (Inl ValueError, \<lparr>incoming = [], sent = []\<rparr>)"
proof -
  have r: "read_message example_lib example_lanman_sock
      = (Inr example_lanman_request, \<lparr>incoming = [], sent = []\<rparr>)"
    by (simp add: read_message_def example_lanman_sock_def sock_recv_def recv_all_def
        example_lanman_bytes_def example_lanman_request_def example_lib_def
        ComNegotiateRequest_decode_def decode_defs)
  have h: "handle_negotiate example_lib example_clock example_lanman_request = Inl ValueError"
    by (simp add: handle_negotiate_def example_lanman_request_def example_lib_def py_str_def
        Let_def)
  from r h show ?thesis by (simp add: handle_def exchange_def)
qed

lemma example_malformed_unanswered:
  "handle example_lib example_clock example_malformed_sock
     = (Inl ValueError, \<lparr>incoming = [], sent = []\<rparr>)"
proof -
  have r: "read_message example_lib example_malformed_sock
      = (Inl ValueError, \<lparr>incoming = [], sent = []\<rparr>)"
    by (simp add: read_message_def example_malformed_sock_def sock_recv_def recv_all_def
        example_malformed_bytes_def example_lib_def
        ComSessionSetupAndxRequest_decode_def read_padding_def decode_utf16le_def decode_defs)
  from r show ?thesis by (simp add: handle_def exchange_def)
qed

lemma ComNegotiateResponse_prepare_packed:
  assumes "struct_pack (negotiate_response_format lib)
             [dialect_index a, security_mode a, max_mpx_count a, max_number_vcs a,
              max_buffer_size a, max_raw_size a, session_key a, capabilities a,
              system_time a, server_time_zone a, challenge_length a] = Inr ps"
  shows "ComNegotiateResponse_prepare lib kw a m
         = Inr ((prepare (ComNegotiateResponse kw a) m)\<lparr>parameters_data := ps, data := []\<rparr>)"
  using assms by (simp add: ComNegotiateResponse_prepare_def Let_def)

lemma negotiate_answered:
  assumes r: "read_message lib s = (Inr req, s1)"
    and h: "handle_negotiate lib clk req = Inr (SMBMessage_init lib (ComNegotiateResponse None a))"
    and ps: "struct_pack (negotiate_response_format lib)
             [dialect_index a, security_mode a, max_mpx_count a, max_number_vcs a,
              max_buffer_size a, max_raw_size a, session_key a, capabilities a,
              system_time a, server_time_zone a, challenge_length a] = Inr ps"
    and pk: "pack_message lib
               ((prepare (ComNegotiateResponse None a)
                   (SMBMessage_init lib (ComNegotiateResponse None a)))
                \<lparr>parameters_data := ps, data := []\<rparr>) = Inr raw"
    and sp: "struct_pack (BigEndian, [U32]) [int (length raw)] = Inr pre"
  shows "\<exists>resp. exchange lib (handle_negotiate lib clk) s
                  = (Inr (req, resp), sock_sendall s1 (pre @ raw))
               \<and> parameters_data resp = ps \<and> data resp = []
               \<and> sent (sock_sendall s1 (pre @ raw)) = sent s @ [pre @ raw]"
proof -
  let ?p = "ComNegotiateResponse None a"
  let ?m = "(prepare ?p (SMBMessage_init lib ?p))\<lparr>parameters_data := ps, data := []\<rparr>"
  have pl: "payload (SMBMessage_init lib ?p) = Some ?p"
    by (rule SMBMessage_init_fields) simp
  have pr: "payload_prepare lib ?p (SMBMessage_init lib ?p) = Inr ?m"
    using ComNegotiateResponse_prepare_packed [OF ps] by simp
  have "exchange lib (handle_negotiate lib clk) s
      = (Inr (req, ?m\<lparr>raw_data := raw\<rparr>), sock_sendall s1 (pre @ raw))"
    by (rule exchange_answered [where respond = "handle_negotiate lib clk", OF r h pl pr pk sp])
  with read_message_sent [OF r] show ?thesis by (simp add: sent_sock_sendall)
qed

lemma example_negotiate_read:
  "read_message example_lib example_negotiate_sock
     = (Inr example_negotiate_request, \<lparr>incoming = [], sent = []\<rparr>)"
  by (simp add: read_message_def example_negotiate_sock_def sock_recv_def recv_all_def
      example_negotiate_bytes_def example_negotiate_request_def example_lib_def
      ComNegotiateRequest_decode_def decode_defs)

lemma example_negotiate_response:
  "handle_negotiate example_lib example_clock example_negotiate_request
     = Inr (example_negotiate_reply\<lparr>parameters_data := [], raw_data := []\<rparr>)"
  by (simp add: handle_negotiate_def example_negotiate_request_def example_negotiate_reply_def
      example_clock_def example_lib_def server_capabilities_def py_str_def
      SMBMessage_init_def init_reply_def getattr_def Let_def)

lemma example_negotiate_send:
  "send_message example_lib (example_negotiate_reply\<lparr>parameters_data := [], raw_data := []\<rparr>)
     \<lparr>incoming = [], sent = []\<rparr>
   = (Inr example_negotiate_reply,
      \<lparr>incoming = [], sent = [[0, 0, 0, 69] @ example_negotiate_reply_bytes]\<rparr>)"
  by (simp add: send_message_def SMBMessage_encode_def ComNegotiateResponse_prepare_def
      example_negotiate_reply_def example_negotiate_reply_bytes_def example_lib_def
      sock_sendall_def pack_defs)

text \<open>
  C4. The NEGOTIATE request that offers LANMAN1.0 and NT LM 0.12 is answered by a message
  whose parameters block unpacks to the dialect index 1 (and, for every library, the block
  that is sent is \<open>struct.pack\<close> of the selected index and the other ten values, lemma
  \<open>negotiate_answered\<close>). For the request that offers LANMAN1.0 only no index is made up:
  \<open>handle\<close> ends with the ValueError of \<open>list.index\<close> and sends nothing. That error is
  not one of its own: \<open>handle\<close> ends with the same ValueError, nothing sent, when its
  first message is a SESSION_SETUP_ANDX request whose strings have no terminator (the
  \<open>index\<close> of line 148). The comment of line 331 asks for the dedicated error that is
  missing.
\<close>

theorem negotiation_failure_not_distinct:
  "exchange example_lib (handle_negotiate example_lib example_clock) example_negotiate_sock
     = (Inr (example_negotiate_request, example_negotiate_reply),
        \<lparr>incoming = [], sent = [[0, 0, 0, 69] @ example_negotiate_reply_bytes]\<rparr>)
   \<and> struct_unpack (negotiate_response_format example_lib)
         (parameters_data example_negotiate_reply)
     = Inr [1, 0, 65535, 65535, 65535, 65535, 0, 0x4C, 133444736000000000, 0, 0]
   \<and> handle example_lib example_clock example_lanman_sock
     = (Inl ValueError, \<lparr>incoming = [], sent = []\<rparr>)
   \<and> handle example_lib example_clock example_malformed_sock
     = (Inl ValueError, \<lparr>incoming = [], sent = []\<rparr>)"
proof -
  have "exchange example_lib (handle_negotiate example_lib example_clock) example_negotiate_sock
     = (Inr (example_negotiate_request, example_negotiate_reply),
        \<lparr>incoming = [], sent = [[0, 0, 0, 69] @ example_negotiate_reply_bytes]\<rparr>)"
    using example_negotiate_read example_negotiate_response example_negotiate_send
    by (simp add: exchange_def)
  moreover have "struct_unpack (negotiate_response_format example_lib)
         (parameters_data example_negotiate_reply)
     = Inr [1, 0, 65535, 65535, 65535, 65535, 0, 0x4C, 133444736000000000, 0, 0]"
    by (simp add: example_lib_def example_negotiate_reply_def struct_unpack_def calcsize_def
        field_value_def)
  ultimately show ?thesis
    using example_lanman_unanswered example_malformed_unanswered by blast
qed


end
